theory Spec2Isabelle
  imports Main "HOL-Library.AList"
begin

section \<open>Python values, exceptions and the HTTP layer\<close>

text \<open>
  The values that flow through \<open>base_client.py\<close>: metadata values, the query parameters
  handed to \<open>urllib.urlencode\<close> and the documents returned by \<open>json.loads\<close>. A Python
  \<open>dict\<close> with string keys is an association list; \<open>map_of\<close> is the lookup.
\<close>

datatype pyval =
    PNone
  | PBool bool
  | PInt int
  | PFloat string
  | PStr string
  | PList "pyval list"
  | PDict "(string \<times> pyval) list"

text \<open>
  Python truthiness, as tested by \<open>not x\<close>. A float is kept as its lexeme; it is zero
  when its mantissa has no digit other than 0.
\<close>

fun truthy :: "pyval \<Rightarrow> bool" where
  "truthy PNone = False"
| "truthy (PBool b) = b"
| "truthy (PInt i) = (i \<noteq> 0)"
| "truthy (PFloat l) =
     (l \<in> {''NaN'', ''Infinity'', ''-Infinity''} \<or>
      (\<exists>d \<in> set (takeWhile (\<lambda>c. c \<notin> {CHR ''e'', CHR ''E''}) l). d \<in> set ''123456789''))"
| "truthy (PStr s) = (s \<noteq> [])"
| "truthy (PList xs) = (xs \<noteq> [])"
| "truthy (PDict kvs) = (kvs \<noteq> [])"

text \<open>
  The exception classes of \<open>base_client.py\<close> (\<open>NotFoundError\<close> is a subclass of
  \<open>RequestError\<close>, all are subclasses of \<open>Error\<close>), followed by the built-in exceptions
  that the modelled code can let through. \<open>OtherException\<close> carries the class name of an
  exception raised by a collaborator that is none of the above.
\<close>

datatype error =
    UserAbort
  | AuthenticationError string
  | RequestError string
  | NotFoundError string
  | MetadataError string
  | ValueError
  | KeyError string
  | TypeError
  | AttributeError
  | NotImplementedError
  | OtherException string

fun is_base_client_Error :: "error \<Rightarrow> bool" where
  "is_base_client_Error UserAbort = True"
| "is_base_client_Error (AuthenticationError m) = True"
| "is_base_client_Error (RequestError m) = True"
| "is_base_client_Error (NotFoundError m) = True"
| "is_base_client_Error (MetadataError m) = True"
| "is_base_client_Error e = False"

text \<open>\<open>isinstance(e, RequestError)\<close>: the class itself or its subclass.\<close>

fun is_RequestError :: "error \<Rightarrow> bool" where
  "is_RequestError (RequestError m) = True"
| "is_RequestError (NotFoundError m) = True"
| "is_RequestError e = False"

datatype http_method = GET | PUT

text \<open>
  A \<open>urllib2.Request\<close>: the URL, the body (\<open>None\<close> for a GET), the header dictionary and
  the result of \<open>get_method()\<close>.
\<close>

record request =
  req_url :: string
  req_data :: "string option"
  req_headers :: "(string \<times> string) list"
  get_method :: http_method

text \<open>
  What \<open>urllib2\<close> raises under \<open>except urllib2.URLError\<close>: an \<open>HTTPError\<close> with its
  \<open>code\<close>, its \<open>msg\<close> and the body that \<open>e.read()\<close> returns, or a plain \<open>URLError\<close> with
  its \<open>reason\<close> (connection refused, timed out, ...).
\<close>

datatype urlerror =
    HTTPError int string string
  | URLError string

text \<open>
  The result of one \<open>opener.open(request)\<close>: a response, of which the code only calls
  \<open>read()\<close>; an exception caught by \<open>except urllib2.URLError\<close>; or an exception of another
  class, given by its name, which that clause does not catch.
\<close>

datatype outcome =
    Response string
  | Failed urlerror
  | Raised string

text \<open>The observable effects, in the order they happen.\<close>

datatype event =
    Opened request
  | Slept nat

text \<open>
  The mutable part of a run: \<open>self._metadata\<close>, the state of the network and server
  behind the opener, and the log of requests opened and seconds slept.
\<close>

record 'w state =
  metadata :: "(string \<times> pyval) list option"
  net :: 'w
  trace :: "event list"

text \<open>
  The attributes of a \<open>CauliflowerVestClient\<close> that no method changes. \<open>MAX_TRIES\<close> and
  \<open>TRY_DELAY_FACTOR\<close> are a number of tries and a number of seconds, hence naturals.
  \<open>opener\<close> is \<open>self.opener.open\<close>: it maps the state of the network and a request to
  an outcome and the next state. \<open>GetMetadata\<close> is the method \<open>_GetMetadata\<close>, which
  subclasses implement.
\<close>

record 'w client =
  base_url :: string
  xsrf_url :: string
  escrow_url :: string
  ESCROW_PATH :: string
  REQUIRED_METADATA :: "string list"
  MAX_TRIES :: nat
  TRY_DELAY_FACTOR :: nat
  headers :: "(string \<times> string) list"
  opener :: "'w \<Rightarrow> request \<Rightarrow> outcome \<times> 'w"
  GetMetadata :: "error + (string \<times> pyval) list"

text \<open>
  Functions that \<open>base_client.py\<close> calls and whose code is not part of it:
  \<open>util.JoinURL\<close>, \<open>urllib.quote\<close>, \<open>urllib.urlencode\<close>, the formatting operator in
  \<open>self.xsrf_url % action\<close> and \<open>json.loads\<close> (which raises on a malformed document).
  The first four are taken as total: they build the text of a URL from strings, and
  no property below depends on that text.
\<close>

record pylib =
  JoinURL :: "string list \<Rightarrow> string"
  quote :: "string \<Rightarrow> string"
  urlencode :: "(string \<times> pyval) list \<Rightarrow> string"
  percent :: "string \<Rightarrow> string \<Rightarrow> string"
  loads :: "string \<Rightarrow> error + pyval"

subsection \<open>Constants of \<open>base_client.py\<close>, \<open>settings.py\<close> and \<open>httplib\<close>\<close>

definition JSON_PREFIX :: string where
  "JSON_PREFIX = [CHR '')'', CHR '']'', CHR ''}'', CHR 0x27, CHR '','', CHR 0x0A]"

definition PASSPHRASE_KEY :: string where
  "PASSPHRASE_KEY = ''passphrase''"

definition default_MAX_TRIES :: nat where
  "default_MAX_TRIES = 5"

definition default_TRY_DELAY_FACTOR :: nat where
  "default_TRY_DELAY_FACTOR = 5"

definition GET_PASSPHRASE_ACTION :: string where
  "GET_PASSPHRASE_ACTION = ''RetrieveSecret''"

definition SET_PASSPHRASE_ACTION :: string where
  "SET_PASSPHRASE_ACTION = ''UploadPassphrase''"

definition FILEVAULT_REQUIRED_PROPERTIES :: "string list" where
  "FILEVAULT_REQUIRED_PROPERTIES = [''hdd_serial'', ''platform_uuid'', ''serial'']"

definition NOT_FOUND :: int where
  "NOT_FOUND = 404"

subsection \<open>Library behaviour that the code relies on\<close>

text \<open>\<open>str(n)\<close> for an integer: its decimal digits.\<close>

function str_nat :: "nat \<Rightarrow> string" where
  "str_nat n = (if n < 10 then [''0123456789'' ! n]
                else str_nat (n div 10) @ [''0123456789'' ! (n mod 10)])"
  by pat_completeness auto
termination
  by (relation "measure id") auto

definition str_int :: "int \<Rightarrow> string" where
  "str_int i = (if i < 0 then CHR ''-'' # str_nat (nat (- i)) else str_nat (nat i))"

text \<open>
  \<open>str(e)\<close> for the two exception classes of \<open>urllib2\<close>:
  \<open>'HTTP Error %s: %s' % (code, msg)\<close> and \<open>'<urlopen error %s>' % reason\<close>.
\<close>

fun str_urlerror :: "urlerror \<Rightarrow> string" where
  "str_urlerror (HTTPError code msg body) = ''HTTP Error '' @ str_int code @ '': '' @ msg"
| "str_urlerror (URLError reason) = ''<urlopen error '' @ reason @ ''>''"

text \<open>
  The two statements \<open>if isinstance(e, urllib2.HTTPError): e.msg += ': ' + e.read()\<close>,
  which every handler of the module starts with.
\<close>

fun append_body :: "urlerror \<Rightarrow> urlerror" where
  "append_body (HTTPError code msg body) = HTTPError code (msg @ '': '' @ body) body"
| "append_body (URLError reason) = URLError reason"

fun is_HTTPError :: "urlerror \<Rightarrow> bool" where
  "is_HTTPError (HTTPError code msg body) = True"
| "is_HTTPError (URLError reason) = False"

fun code_of :: "urlerror \<Rightarrow> int" where
  "code_of (HTTPError c msg body) = c"
| "code_of (URLError reason) = 0"

text \<open>\<open>str.capitalize()\<close> on ASCII: first character upper case, the rest lower case.\<close>

definition upper_char :: "char \<Rightarrow> char" where
  "upper_char c =
     (case map_of (zip ''abcdefghijklmnopqrstuvwxyz'' ''ABCDEFGHIJKLMNOPQRSTUVWXYZ'') c of
        Some u \<Rightarrow> u | None \<Rightarrow> c)"

definition lower_char :: "char \<Rightarrow> char" where
  "lower_char c =
     (case map_of (zip ''ABCDEFGHIJKLMNOPQRSTUVWXYZ'' ''abcdefghijklmnopqrstuvwxyz'') c of
        Some l \<Rightarrow> l | None \<Rightarrow> c)"

fun capitalize :: "string \<Rightarrow> string" where
  "capitalize [] = []"
| "capitalize (c # cs) = upper_char c # map lower_char cs"

text \<open>\<open>Request.add_header(key, val)\<close>: \<open>self.headers[key.capitalize()] = val\<close>.\<close>

definition add_header :: "string \<Rightarrow> string \<Rightarrow> request \<Rightarrow> request" where
  "add_header key val r = r\<lparr>req_headers := AList.update (capitalize key) val (req_headers r)\<rparr>"

text \<open>\<open>urllib2.Request(url)\<close>, and the local class \<open>PutRequest(url, data=passphrase)\<close>.\<close>

definition Request :: "string \<Rightarrow> request" where
  "Request u = \<lparr>req_url = u, req_data = None, req_headers = [], get_method = GET\<rparr>"

definition PutRequest :: "string \<Rightarrow> string \<Rightarrow> request" where
  "PutRequest u d =
     add_header ''Content-Type'' ''application/octet-stream''
       \<lparr>req_url = u, req_data = Some d, req_headers = [], get_method = PUT\<rparr>"

text \<open>\<open>content.startswith(prefix)\<close>.\<close>

definition startswith :: "string \<Rightarrow> string \<Rightarrow> bool" where
  "startswith s p = (take (length p) s = p)"

text \<open>\<open>self.opener.open(request)\<close>, recorded in the log.\<close>

definition opener_open :: "'w client \<Rightarrow> request \<Rightarrow> 'w state \<Rightarrow> outcome \<times> 'w state" where
  "opener_open c r s =
     (case opener c (net s) r of
        (out, w) \<Rightarrow> (out, s\<lparr>net := w, trace := trace s @ [Opened r]\<rparr>))"

text \<open>\<open>time.sleep(seconds)\<close>, recorded in the log.\<close>

definition sleep :: "nat \<Rightarrow> 'w state \<Rightarrow> 'w state" where
  "sleep seconds s = s\<lparr>trace := trace s @ [Slept seconds]\<rparr>"

section \<open>\<open>CauliflowerVestClient\<close>\<close>

subsection \<open>\<open>_RetryRequest\<close>\<close>

text \<open>
  The loop \<open>for try_num in range(self.MAX_TRIES)\<close>, over the list of the values of
  \<open>try_num\<close> still to run. When the list is exhausted the method falls off its end and
  returns \<open>None\<close>. \<open>MAX_TRIES - 1\<close> is evaluated inside the loop only, where
  \<open>MAX_TRIES\<close> is positive, so subtraction on naturals is the subtraction of the source.
  (The calls to \<open>logging\<close> are not modelled.)
\<close>

fun RetryRequest_loop ::
  "'w client \<Rightarrow> request \<Rightarrow> string \<Rightarrow> bool \<Rightarrow> nat list \<Rightarrow> 'w state
     \<Rightarrow> (error + string option) \<times> 'w state" where
  "RetryRequest_loop c request description retry_4xx [] s = (Inr None, s)"
| "RetryRequest_loop c request description retry_4xx (try_num # rest) s =
     (case opener_open c request s of
        (Response body, s1) \<Rightarrow> (Inr (Some body), s1)
      | (Raised x, s1) \<Rightarrow> (Inl (OtherException x), s1)
      | (Failed e0, s1) \<Rightarrow>
          (let e = append_body e0 in
           if is_HTTPError e \<and> 400 \<le> code_of e \<and> code_of e < 500 \<and> \<not> retry_4xx
           then (Inl (RequestError (description @ '' failed: '' @ str_urlerror e)), s1)
           else if try_num = MAX_TRIES c - 1
           then (Inl (RequestError (description @ '' failed permanently: '' @ str_urlerror e)), s1)
           else RetryRequest_loop c request description retry_4xx rest
                  (sleep ((try_num + 1) * TRY_DELAY_FACTOR c) s1)))"

text \<open>The first loop of the method: \<open>request.add_header(k, v)\<close> for each configured header.\<close>

definition with_headers :: "'w client \<Rightarrow> request \<Rightarrow> request" where
  "with_headers c request = fold (\<lambda>(k, v) r. add_header k v r) (headers c) request"

definition RetryRequest ::
  "'w client \<Rightarrow> request \<Rightarrow> string \<Rightarrow> bool \<Rightarrow> 'w state \<Rightarrow> (error + string option) \<times> 'w state" where
  "RetryRequest c request description retry_4xx s =
     RetryRequest_loop c (with_headers c request) description retry_4xx [0..<MAX_TRIES c] s"


subsection \<open>\<open>_FetchXsrfToken\<close>\<close>

text \<open>
  \<open>response.read()\<close> on the result of \<open>_RetryRequest\<close>; when that result is \<open>None\<close>
  the attribute access raises \<open>AttributeError\<close>.
\<close>

definition FetchXsrfToken ::
  "'w client \<Rightarrow> pylib \<Rightarrow> string \<Rightarrow> 'w state \<Rightarrow> (error + string) \<times> 'w state" where
  "FetchXsrfToken c lib action s =
     (let request = Request (percent lib (xsrf_url c) action) in
      case RetryRequest c request ''Fetching XSRF token'' False s of
        (Inl e, s1) \<Rightarrow> (Inl e, s1)
      | (Inr None, s1) \<Rightarrow> (Inl AttributeError, s1)
      | (Inr (Some response), s1) \<Rightarrow> (Inr response, s1))"

subsection \<open>\<open>RetrieveSecret\<close>\<close>

text \<open>
  \<open>data[key]\<close> for a string key on a decoded document: a dictionary raises \<open>KeyError\<close>
  for a missing key, every other value raises \<open>TypeError\<close>.
\<close>

fun getitem :: "pyval \<Rightarrow> string \<Rightarrow> error + pyval" where
  "getitem (PDict kvs) key = (case map_of kvs key of None \<Rightarrow> Inl (KeyError key) | Some v \<Rightarrow> Inr v)"
| "getitem v key = Inl TypeError"

text \<open>
  The method fetches the token, opens its GET on the opener itself (not through
  \<open>_RetryRequest\<close>) inside its own \<open>try\<close> block, then reads and decodes the body.
\<close>

definition RetrieveSecret ::
  "'w client \<Rightarrow> pylib \<Rightarrow> string \<Rightarrow> 'w state \<Rightarrow> (error + pyval) \<times> 'w state" where
  "RetrieveSecret c lib target_id s =
     (case FetchXsrfToken c lib GET_PASSPHRASE_ACTION s of
        (Inl e, s1) \<Rightarrow> (Inl e, s1)
      | (Inr xsrf_token, s1) \<Rightarrow>
          (let url = JoinURL lib [escrow_url c, quote lib target_id] @ ''?'' @
                       urlencode lib [(''xsrf-token'', PStr xsrf_token)];
               request = Request url in
           case opener_open c request s1 of
             (Failed e0, s2) \<Rightarrow>
               (let e = append_body e0 in
                if is_HTTPError e \<and> code_of e = NOT_FOUND
                then (Inl (NotFoundError (''Failed to retrieve passphrase. '' @ str_urlerror e)), s2)
                else (Inl (RequestError (''Failed to retrieve passphrase. '' @ str_urlerror e)), s2))
           | (Raised x, s2) \<Rightarrow> (Inl (OtherException x), s2)
           | (Response content, s2) \<Rightarrow>
               if \<not> startswith content JSON_PREFIX
               then (Inl (RequestError ''Expected JSON prefix missing.''), s2)
               else (case loads lib (drop (length JSON_PREFIX) content) of
                       Inl e \<Rightarrow> (Inl e, s2)
                     | Inr data \<Rightarrow> (getitem data PASSPHRASE_KEY, s2))))"

subsection \<open>\<open>GetAndValidateMetadata\<close> and \<open>SetOwner\<close>\<close>

text \<open>\<open>not self._metadata\<close>: the attribute is \<open>None\<close> or an empty dictionary.\<close>

fun no_metadata :: "(string \<times> pyval) list option \<Rightarrow> bool" where
  "no_metadata None = True"
| "no_metadata (Some md) = (md = [])"

text \<open>\<open>self._metadata.get(key, None)\<close>.\<close>

definition dict_get :: "(string \<times> pyval) list \<Rightarrow> string \<Rightarrow> pyval" where
  "dict_get md key = (case map_of md key of None \<Rightarrow> PNone | Some v \<Rightarrow> v)"

text \<open>The loop \<open>for key in self.REQUIRED_METADATA\<close>.\<close>

fun check_required :: "(string \<times> pyval) list \<Rightarrow> string list \<Rightarrow> error + unit" where
  "check_required md [] = Inr ()"
| "check_required md (key # keys) =
     (if \<not> truthy (dict_get md key)
      then Inl (MetadataError (''Required metadata is not found: '' @ key))
      else check_required md keys)"

definition GetAndValidateMetadata :: "'w client \<Rightarrow> 'w state \<Rightarrow> (error + unit) \<times> 'w state" where
  "GetAndValidateMetadata c s =
     (case (if no_metadata (metadata s)
            then (case GetMetadata c of
                    Inl e \<Rightarrow> Inl e
                  | Inr md \<Rightarrow> Inr (s\<lparr>metadata := Some md\<rparr>))
            else Inr s) of
        Inl e \<Rightarrow> (Inl e, s)
      | Inr s1 \<Rightarrow>
          (case metadata s1 of
             None \<Rightarrow> (Inl AttributeError, s1)
           | Some md \<Rightarrow> (check_required md (REQUIRED_METADATA c), s1)))"

definition SetOwner :: "'w client \<Rightarrow> pyval \<Rightarrow> 'w state \<Rightarrow> (error + unit) \<times> 'w state" where
  "SetOwner c owner s =
     (case (if no_metadata (metadata s) then GetAndValidateMetadata c s else (Inr (), s)) of
        (Inl e, s1) \<Rightarrow> (Inl e, s1)
      | (Inr u, s1) \<Rightarrow>
          (case metadata s1 of
             None \<Rightarrow> (Inl TypeError, s1)
           | Some md \<Rightarrow> (Inr (), s1\<lparr>metadata := Some (AList.update ''owner'' owner md)\<rparr>)))"

subsection \<open>\<open>IsKeyRotationNeeded\<close>\<close>

definition IsKeyRotationNeeded ::
  "'w client \<Rightarrow> pylib \<Rightarrow> string \<Rightarrow> string \<Rightarrow> 'w state \<Rightarrow> (error + pyval) \<times> 'w state" where
  "IsKeyRotationNeeded c lib target_id tag s =
     (let url = JoinURL lib [base_url c, ''/api/v1/rekey-required/'', ESCROW_PATH c, target_id]
                  @ ''?'' @ urlencode lib [(''tag'', PStr tag)];
          request = Request url in
      case opener_open c request s of
        (Failed e0, s1) \<Rightarrow>
          (let e = append_body e0 in
           (Inl (RequestError (''Failed to get status. '' @ str_urlerror e)), s1))
      | (Raised x, s1) \<Rightarrow> (Inl (OtherException x), s1)
      | (Response content, s1) \<Rightarrow>
          if \<not> startswith content JSON_PREFIX
          then (Inl (RequestError ''Expected JSON prefix missing.''), s1)
          else (loads lib (drop (length JSON_PREFIX) content), s1))"

subsection \<open>\<open>UploadPassphrase\<close>\<close>

definition UploadPassphrase ::
  "'w client \<Rightarrow> pylib \<Rightarrow> string \<Rightarrow> string \<Rightarrow> bool \<Rightarrow> 'w state \<Rightarrow> (error + unit) \<times> 'w state" where
  "UploadPassphrase c lib target_id passphrase retry_4xx s =
     (case FetchXsrfToken c lib SET_PASSPHRASE_ACTION s of
        (Inl e, s1) \<Rightarrow> (Inl e, s1)
      | (Inr xsrf_token, s1) \<Rightarrow>
          (case (if no_metadata (metadata s1) then GetAndValidateMetadata c s1 else (Inr (), s1)) of
             (Inl e, s2) \<Rightarrow> (Inl e, s2)
           | (Inr u, s2) \<Rightarrow>
               (case metadata s2 of
                  None \<Rightarrow> (Inl AttributeError, s2)
                | Some md \<Rightarrow>
                    (let parameters = AList.update ''volume_uuid'' (PStr target_id)
                                        (AList.update ''xsrf-token'' (PStr xsrf_token) md);
                         url = escrow_url c @ ''?'' @ urlencode lib parameters;
                         request = PutRequest url passphrase in
                     case RetryRequest c request ''Uploading passphrase'' retry_4xx s2 of
                       (Inl e, s3) \<Rightarrow> (Inl e, s3)
                     | (Inr response, s3) \<Rightarrow> (Inr (), s3)))))"

section \<open>The workflows of \<open>tkinter.py\<close> that upload a passphrase\<close>

text \<open>
  The module \<open>glue\<close> is not part of the sources at hand. Its two functions are taken by
  their results (\<open>Inl\<close> holds the message of a raised \<open>glue.Error\<close>), its message
  constants as they are.
\<close>

record glue =
  UpdateEscrowPassphrase :: "string \<Rightarrow> string \<Rightarrow> string + string"
  ApplyEncryption :: "string \<Rightarrow> string \<Rightarrow> string + (string \<times> string)"
  ESCROW_FAILED_MESSAGE :: string
  ENCRYPTION_FAILED_MESSAGE :: string
  ENCRYPTION_SUCCESS_MESSAGE :: string

text \<open>
  What the window shows when a handler returns: the page of \<open>ShowFatalError(message)\<close>,
  the page of \<open>_PrepTop(message)\<close>, or the page that was there before.
\<close>

datatype screen =
    FatalError string
  | Message string
  | Unchanged

definition RotateRecoveryKey ::
  "glue \<Rightarrow> string \<Rightarrow> 'w client \<Rightarrow> pylib \<Rightarrow> string \<Rightarrow> string \<Rightarrow> 'w state
     \<Rightarrow> (error + screen) \<times> 'w state" where
  "RotateRecoveryKey g username cl lib volume_uuid passwd s =
     (case UpdateEscrowPassphrase g username passwd of
        Inl message \<Rightarrow> (Inr (FatalError message), s)
      | Inr recovery_key \<Rightarrow>
          (case UploadPassphrase cl lib volume_uuid recovery_key False s of
             (Inl e, s1) \<Rightarrow>
               if is_base_client_Error e then (Inr (FatalError (ESCROW_FAILED_MESSAGE g)), s1)
               else (Inl e, s1)
           | (Inr u, s1) \<Rightarrow> (Inr (Message ''Key rotated successfully.''), s1)))"

text \<open>
  \<open>_PlainVolumeAction\<close>, with the result of \<open>self._Authenticate\<close> as an argument
  (\<open>Inl\<close> for a raised \<open>glue.Error\<close>, \<open>Inr None\<close> for no client), up to the page that
  reports success. The restart button and its countdown are not modelled.
\<close>

definition PlainVolumeAction ::
  "glue \<Rightarrow> (string + 'w client option) \<Rightarrow> pylib \<Rightarrow> string \<Rightarrow> string \<Rightarrow> 'w state
     \<Rightarrow> (error + screen) \<times> 'w state" where
  "PlainVolumeAction g auth lib user passwd s =
     (case auth of
        Inl glue_error \<Rightarrow> (Inr Unchanged, s)
      | Inr None \<Rightarrow> (Inr Unchanged, s)
      | Inr (Some cl) \<Rightarrow>
          (case ApplyEncryption g user passwd of
             Inl glue_error \<Rightarrow> (Inr (FatalError (ENCRYPTION_FAILED_MESSAGE g)), s)
           | Inr (volume_uuid, recovery_token) \<Rightarrow>
               (case UploadPassphrase cl lib volume_uuid recovery_token False s of
                  (Inl e, s1) \<Rightarrow>
                    if is_base_client_Error e then (Inr (FatalError (ESCROW_FAILED_MESSAGE g)), s1)
                    else (Inl e, s1)
                | (Inr u, s1) \<Rightarrow> (Inr (Message (ENCRYPTION_SUCCESS_MESSAGE g)), s1))))"

section \<open>A decoder for \<open>json.loads\<close>\<close>

text \<open>
  The operations above take the decoder as the argument \<open>loads\<close>, and the general
  theorems hold for every decoder. Concrete runs need one: \<open>json_loads\<close> follows the
  scanner of Python's \<open>json\<close> module (\<open>decode\<close>, \<open>scan_once\<close>, \<open>JSONObject\<close>,
  \<open>JSONArray\<close>, \<open>scanstring\<close> in strict mode and the number pattern) on ASCII documents.
  Bytes above 127 and \<open>\u\<close> escapes above 127 are outside this fragment and rejected
  here. Every failure of the module is a \<open>ValueError\<close>.
\<close>

definition is_ws :: "char \<Rightarrow> bool" where
  "is_ws ch = (ch \<in> {CHR '' '', CHR 0x09, CHR 0x0A, CHR 0x0D})"

definition skip_ws :: "string \<Rightarrow> string" where
  "skip_ws cs = dropWhile is_ws cs"

definition is_digit :: "char \<Rightarrow> bool" where
  "is_digit ch = (ch \<in> set ''0123456789'')"

definition digit_val :: "char \<Rightarrow> nat" where
  "digit_val ch = (case map_of (zip ''0123456789'' [0 ..< 10]) ch of Some v \<Rightarrow> v | None \<Rightarrow> 0)"

definition hex_val :: "char \<Rightarrow> nat option" where
  "hex_val ch = map_of (zip ''0123456789abcdefABCDEF''
                          ([0 ..< 16] @ [10 ..< 16])) ch"

definition unescape :: "char \<Rightarrow> char option" where
  "unescape ch = map_of
     [(CHR 0x22, CHR 0x22), (CHR 0x5C, CHR 0x5C), (CHR ''/'', CHR ''/''),
      (CHR ''b'', CHR 0x08), (CHR ''f'', CHR 0x0C), (CHR ''n'', CHR 0x0A),
      (CHR ''r'', CHR 0x0D), (CHR ''t'', CHR 0x09)] ch"

definition control_chars :: "char list" where
  "control_chars = map char_of [0 ..< (32::nat)]"

text \<open>The four hexadecimal digits of a \<open>\u\<close> escape, for a code point below 128.\<close>

definition unicode_escape :: "string \<Rightarrow> char option" where
  "unicode_escape ds =
     (case map hex_val ds of
        [Some a, Some b, Some c, Some d] \<Rightarrow>
          (let v = ((a * 16 + b) * 16 + c) * 16 + d in
           if v < 128 then Some (char_of v) else None)
      | _ \<Rightarrow> None)"

text \<open>\<open>scanstring\<close>, entered after the opening quote; the result is the string and the rest.\<close>

function scan_string :: "string \<Rightarrow> string \<Rightarrow> (string \<times> string) option" where
  "scan_string acc cs =
     (if cs = [] then None
      else if hd cs = CHR 0x22 then Some (acc, tl cs)
      else if hd cs = CHR 0x5C then
        (if tl cs = [] then None
         else if hd (tl cs) = CHR ''u'' then
           (if length (tl (tl cs)) < 4 then None
            else case unicode_escape (take 4 (tl (tl cs))) of
                   None \<Rightarrow> None
                 | Some ch \<Rightarrow> scan_string (acc @ [ch]) (drop 4 (tl (tl cs))))
         else case unescape (hd (tl cs)) of
                None \<Rightarrow> None
              | Some ch \<Rightarrow> scan_string (acc @ [ch]) (tl (tl cs)))
      else if hd cs \<in> set control_chars \<or> \<not> (of_char (hd cs) :: nat) < 128 then None
      else scan_string (acc @ [hd cs]) (tl cs))"
  by pat_completeness auto
termination
  by (relation "measure (\<lambda>(acc, cs). length cs)") (auto simp: less_Suc_eq_le intro: le_trans [OF diff_le_self])

text \<open>
  The number pattern \<open>(-?(?:0|[1-9]\d*))(\.\d+)?([eE][-+]?\d+)?\<close>: an integer when
  there is neither fraction nor exponent, a float otherwise.
\<close>

definition scan_number :: "string \<Rightarrow> (pyval \<times> string) option" where
  "scan_number cs =
     (let sign = (if cs \<noteq> [] \<and> hd cs = CHR ''-'' then ''-'' else []);
          cs1 = drop (length sign) cs;
          ip = (if cs1 \<noteq> [] \<and> hd cs1 = CHR ''0'' then ''0'' else takeWhile is_digit cs1);
          cs2 = drop (length ip) cs1;
          fd = (if cs2 \<noteq> [] \<and> hd cs2 = CHR ''.'' then takeWhile is_digit (tl cs2) else []);
          frac = (if fd = [] then [] else CHR ''.'' # fd);
          cs3 = drop (length frac) cs2;
          es = (if cs3 \<noteq> [] \<and> hd cs3 \<in> {CHR ''e'', CHR ''E''} then
                  (if tl cs3 \<noteq> [] \<and> hd (tl cs3) \<in> {CHR ''+'', CHR ''-''}
                   then [hd (tl cs3)] else [])
                else []);
          ed = (if cs3 \<noteq> [] \<and> hd cs3 \<in> {CHR ''e'', CHR ''E''}
                then takeWhile is_digit (drop (Suc (length es)) cs3) else []);
          ex = (if ed = [] then [] else hd cs3 # es @ ed);
          rest = drop (length ex) cs3
      in if ip = [] then None
         else if frac = [] \<and> ex = [] then
           Some (PInt ((if sign = [] then 1 else - 1) *
                        int (foldl (\<lambda>a d. 10 * a + digit_val d) 0 ip)), rest)
         else Some (PFloat (sign @ ip @ frac @ ex), rest))"

text \<open>The branches of \<open>scan_once\<close> for literals and numbers.\<close>

definition scan_atom :: "string \<Rightarrow> (pyval \<times> string) option" where
  "scan_atom cs =
     (if take 4 cs = ''null'' then Some (PNone, drop 4 cs)
      else if take 4 cs = ''true'' then Some (PBool True, drop 4 cs)
      else if take 5 cs = ''false'' then Some (PBool False, drop 5 cs)
      else case scan_number cs of
             Some r \<Rightarrow> Some r
           | None \<Rightarrow>
               if take 3 cs = ''NaN'' then Some (PFloat ''NaN'', drop 3 cs)
               else if take 8 cs = ''Infinity'' then Some (PFloat ''Infinity'', drop 8 cs)
               else if take 9 cs = ''-Infinity'' then Some (PFloat ''-Infinity'', drop 9 cs)
               else None)"

text \<open>
  \<open>scan_once\<close>, \<open>JSONArray\<close> and \<open>JSONObject\<close>. The first argument bounds the number of
  nested calls; every call consumes a character, so the length of the document is enough.
  \<open>scan_array\<close> is entered where a value is expected, \<open>scan_object\<close> where a key is.
\<close>

fun scan_once :: "nat \<Rightarrow> string \<Rightarrow> (pyval \<times> string) option"
and scan_array :: "nat \<Rightarrow> pyval list \<Rightarrow> string \<Rightarrow> (pyval \<times> string) option"
and scan_object :: "nat \<Rightarrow> (string \<times> pyval) list \<Rightarrow> string \<Rightarrow> (pyval \<times> string) option" where
  "scan_once 0 cs = None"
| "scan_once (Suc n) cs =
     (if cs = [] then None
      else if hd cs = CHR 0x22 then
        (case scan_string [] (tl cs) of
           None \<Rightarrow> None
         | Some (str, r) \<Rightarrow> Some (PStr str, r))
      else if hd cs = CHR ''{'' then
        (if skip_ws (tl cs) \<noteq> [] \<and> hd (skip_ws (tl cs)) = CHR ''}''
         then Some (PDict [], tl (skip_ws (tl cs)))
         else scan_object n [] (skip_ws (tl cs)))
      else if hd cs = CHR ''['' then
        (if skip_ws (tl cs) \<noteq> [] \<and> hd (skip_ws (tl cs)) = CHR '']''
         then Some (PList [], tl (skip_ws (tl cs)))
         else scan_array n [] (skip_ws (tl cs)))
      else scan_atom cs)"
| "scan_array 0 acc cs = None"
| "scan_array (Suc n) acc cs =
     (case scan_once n cs of
        None \<Rightarrow> None
      | Some (v, r) \<Rightarrow>
          if skip_ws r = [] then None
          else if hd (skip_ws r) = CHR '']'' then Some (PList (acc @ [v]), tl (skip_ws r))
          else if hd (skip_ws r) = CHR '','' then scan_array n (acc @ [v]) (skip_ws (tl (skip_ws r)))
          else None)"
| "scan_object 0 acc cs = None"
| "scan_object (Suc n) acc cs =
     (if cs = [] \<or> hd cs \<noteq> CHR 0x22 then None
      else case scan_string [] (tl cs) of
             None \<Rightarrow> None
           | Some (key, r) \<Rightarrow>
               if skip_ws r = [] \<or> hd (skip_ws r) \<noteq> CHR '':'' then None
               else case scan_once n (skip_ws (tl (skip_ws r))) of
                      None \<Rightarrow> None
                    | Some (v, r2) \<Rightarrow>
                        if skip_ws r2 = [] then None
                        else if hd (skip_ws r2) = CHR ''}''
                        then Some (PDict (AList.update key v acc), tl (skip_ws r2))
                        else if hd (skip_ws r2) = CHR '',''
                        then scan_object n (AList.update key v acc) (skip_ws (tl (skip_ws r2)))
                        else None)"

text \<open>\<open>JSONDecoder.decode\<close>: white space, one value, white space, end of the document.\<close>

definition json_loads :: "string \<Rightarrow> error + pyval" where
  "json_loads doc =
     (case scan_once (Suc (length doc)) (skip_ws doc) of
        None \<Rightarrow> Inl ValueError
      | Some (v, rest) \<Rightarrow> if skip_ws rest = [] then Inr v else Inl ValueError)"

section \<open>Notions used to state the properties\<close>

subsection \<open>Runs of the retry loop\<close>

text \<open>
  The state of the network after \<open>n\<close> attempts at the request \<open>r\<close>, and the outcome
  of attempt \<open>n\<close> (counted from 0) when the attempts start in the state \<open>w\<close>.
\<close>

fun net_after :: "'w client \<Rightarrow> request \<Rightarrow> 'w \<Rightarrow> nat \<Rightarrow> 'w" where
  "net_after c r w 0 = w"
| "net_after c r w (Suc n) = net_after c r (snd (opener c w r)) n"

definition attempt :: "'w client \<Rightarrow> request \<Rightarrow> 'w \<Rightarrow> nat \<Rightarrow> outcome" where
  "attempt c r w n = fst (opener c (net_after c r w n) r)"

text \<open>An HTTP status in the range 400 to 499.\<close>

definition is_4xx :: "urlerror \<Rightarrow> bool" where
  "is_4xx e = (is_HTTPError e \<and> 400 \<le> code_of e \<and> code_of e < 500)"

text \<open>
  The failures after which the loop goes on: a \<open>URLError\<close> that is not an HTTP status,
  or an HTTP status outside 400 to 499 (or inside it when \<open>retry_4xx\<close> is set).
\<close>

fun retried :: "bool \<Rightarrow> outcome \<Rightarrow> bool" where
  "retried retry_4xx (Failed e) = (\<not> (is_4xx e \<and> \<not> retry_4xx))"
| "retried retry_4xx out = False"

text \<open>
  The log of \<open>k\<close> failed attempts numbered \<open>i, ..., i + k - 1\<close>, each followed by its
  pause of \<open>(n + 1) * factor\<close> seconds, and of one more attempt.
\<close>

definition backoff_trace :: "request \<Rightarrow> nat \<Rightarrow> nat \<Rightarrow> nat \<Rightarrow> event list" where
  "backoff_trace r factor i k =
     concat (map (\<lambda>n. [Opened r, Slept ((n + 1) * factor)]) [i ..< i + k]) @ [Opened r]"

text \<open>What the method returns or raises on the outcome of its last attempt.\<close>

fun last_result :: "string \<Rightarrow> bool \<Rightarrow> outcome \<Rightarrow> error + string option" where
  "last_result description retry_4xx (Response body) = Inr (Some body)"
| "last_result description retry_4xx (Raised x) = Inl (OtherException x)"
| "last_result description retry_4xx (Failed e) =
     (if is_4xx e \<and> \<not> retry_4xx
      then Inl (RequestError (description @ '' failed: '' @ str_urlerror (append_body e)))
      else Inl (RequestError
                  (description @ '' failed permanently: '' @ str_urlerror (append_body e))))"

text \<open>The seconds slept and the requests opened, read off a log.\<close>

fun sleeps :: "event list \<Rightarrow> nat list" where
  "sleeps [] = []"
| "sleeps (Slept t # evs) = t # sleeps evs"
| "sleeps (Opened r # evs) = sleeps evs"

fun opened :: "event list \<Rightarrow> request list" where
  "opened [] = []"
| "opened (Opened r # evs) = r # opened evs"
| "opened (Slept t # evs) = opened evs"

subsection \<open>The requests that the operations send\<close>

text \<open>
  The token request for an action, the GET of \<open>RetrieveSecret\<close>, the GET of
  \<open>IsKeyRotationNeeded\<close> and the PUT of \<open>UploadPassphrase\<close>, as the methods build them.
  The two that go through \<open>_RetryRequest\<close> carry the configured headers.
\<close>

definition xsrf_request :: "'w client \<Rightarrow> pylib \<Rightarrow> string \<Rightarrow> request" where
  "xsrf_request c lib action = with_headers c (Request (percent lib (xsrf_url c) action))"

definition secret_request :: "'w client \<Rightarrow> pylib \<Rightarrow> string \<Rightarrow> string \<Rightarrow> request" where
  "secret_request c lib target_id xsrf_token =
     Request (JoinURL lib [escrow_url c, quote lib target_id] @ ''?'' @
              urlencode lib [(''xsrf-token'', PStr xsrf_token)])"

definition rekey_request :: "'w client \<Rightarrow> pylib \<Rightarrow> string \<Rightarrow> string \<Rightarrow> request" where
  "rekey_request c lib target_id tag =
     Request (JoinURL lib [base_url c, ''/api/v1/rekey-required/'', ESCROW_PATH c, target_id]
              @ ''?'' @ urlencode lib [(''tag'', PStr tag)])"

definition upload_request ::
  "'w client \<Rightarrow> pylib \<Rightarrow> string \<Rightarrow> string \<Rightarrow> string \<Rightarrow> (string \<times> pyval) list \<Rightarrow> request" where
  "upload_request c lib target_id passphrase xsrf_token md =
     with_headers c
       (PutRequest (escrow_url c @ ''?'' @
                    urlencode lib (AList.update ''volume_uuid'' (PStr target_id)
                                     (AList.update ''xsrf-token'' (PStr xsrf_token) md)))
                   passphrase)"

subsection \<open>Metadata\<close>

text \<open>A required key is offending when it is absent or maps to a value that is falsy.\<close>

definition offending :: "(string \<times> pyval) list \<Rightarrow> string \<Rightarrow> bool" where
  "offending md key = (case map_of md key of None \<Rightarrow> True | Some v \<Rightarrow> \<not> truthy v)"

text \<open>
  The metadata that a call validates: the cached dictionary when there is a non-empty
  one, else what \<open>_GetMetadata\<close> returns (nothing when it raises).
\<close>

definition metadata_in_effect :: "'w client \<Rightarrow> 'w state \<Rightarrow> (string \<times> pyval) list option" where
  "metadata_in_effect c s =
     (if no_metadata (metadata s)
      then (case GetMetadata c of Inl e \<Rightarrow> None | Inr md \<Rightarrow> Some md)
      else metadata s)"


subsection \<open>Concrete collaborators for worked runs\<close>

text \<open>
  Stand-ins for the functions of \<open>pylib\<close>, used only where a run is evaluated. They
  agree with the originals on arguments made of letters, digits, \<open>-\<close>, \<open>_\<close> and \<open>.\<close>,
  which is all the worked runs use: \<open>join_url\<close> joins the parts with single slashes,
  \<open>subst_s\<close> replaces the first \<open>%s\<close>, \<open>url_encode\<close> writes \<open>k=v\<close> joined by \<open>&\<close>.
\<close>

fun join_url :: "string list \<Rightarrow> string" where
  "join_url [] = []"
| "join_url (base # parts) =
     foldl (\<lambda>u part. (if u = [] \<or> last u = CHR ''/'' then u else u @ ''/'') @
                      (if part \<noteq> [] \<and> hd part = CHR ''/'' then tl part else part))
           base parts"

fun subst_s :: "string \<Rightarrow> string \<Rightarrow> string" where
  "subst_s (c # d # cs) a =
     (if c = CHR ''%'' \<and> d = CHR ''s'' then a @ cs else c # subst_s (d # cs) a)"
| "subst_s cs a = cs"

fun str_pyval :: "pyval \<Rightarrow> string" where
  "str_pyval (PStr s) = s"
| "str_pyval (PInt i) = str_int i"
| "str_pyval (PBool b) = (if b then ''True'' else ''False'')"
| "str_pyval v = ''None''"

fun url_encode :: "(string \<times> pyval) list \<Rightarrow> string" where
  "url_encode [] = []"
| "url_encode [(k, v)] = k @ ''='' @ str_pyval v"
| "url_encode ((k, v) # kvs) = k @ ''='' @ str_pyval v @ ''&'' @ url_encode kvs"

definition example_lib :: pylib where
  "example_lib = \<lparr>JoinURL = join_url, quote = (\<lambda>s. s), urlencode = url_encode,
                    percent = subst_s, loads = json_loads\<rparr>"

text \<open>
  A FileVault client with the default retry settings. Its network answers a request by
  \<open>server\<close>, which sees how many requests came before, and counts the requests.
\<close>

definition example_client :: "(nat \<Rightarrow> request \<Rightarrow> outcome) \<Rightarrow> nat client" where
  "example_client server =
     \<lparr>base_url = ''https://cv.example'',
      xsrf_url = ''https://cv.example/xsrf-token/%s'',
      escrow_url = ''https://cv.example/filevault'',
      ESCROW_PATH = ''/filevault'',
      REQUIRED_METADATA = FILEVAULT_REQUIRED_PROPERTIES,
      MAX_TRIES = default_MAX_TRIES,
      TRY_DELAY_FACTOR = default_TRY_DELAY_FACTOR,
      headers = [],
      opener = (\<lambda>w r. (server w r, Suc w)),
      GetMetadata = Inr [(''hdd_serial'', PStr ''S1''), (''platform_uuid'', PStr ''U1''),
                         (''serial'', PStr ''C02'')]\<rparr>"

definition start :: "nat state" where
  "start = \<lparr>metadata = None, net = 0, trace = []\<rparr>"

text \<open>A server that hands out a token and answers every other request by \<open>out\<close>.\<close>

definition token_server :: "outcome \<Rightarrow> nat \<Rightarrow> request \<Rightarrow> outcome" where
  "token_server out w r =
     (if req_url r \<in> {''https://cv.example/xsrf-token/RetrieveSecret'',
                       ''https://cv.example/xsrf-token/UploadPassphrase''}
      then Response ''T0K3N'' else out)"

text \<open>A body with the prefix and a document that holds a passphrase; one without the key.\<close>

definition secret_document :: string where
  "secret_document =
     ''{'' @ [CHR 0x22] @ ''passphrase'' @ [CHR 0x22] @ '': '' @ [CHR 0x22] @ ''p1'' @ [CHR 0x22] @ ''}''"


text \<open>
  Stand-ins for the functions and messages of \<open>glue\<close>: encryption and key rotation
  succeed and hand out a fixed volume and key.
\<close>

definition example_glue :: glue where
  "example_glue =
     \<lparr>UpdateEscrowPassphrase = (\<lambda>username passwd. Inr ''NEW-KEY''),
      ApplyEncryption = (\<lambda>user passwd. Inr (''VOL1'', ''FIRST-KEY'')),
      ESCROW_FAILED_MESSAGE = ''Escrowing the recovery passphrase failed.'',
      ENCRYPTION_FAILED_MESSAGE = ''Encryption failed.'',
      ENCRYPTION_SUCCESS_MESSAGE = ''Encryption enabled.''\<rparr>"

section \<open>Properties of \<open>_RetryRequest\<close>\<close>

lemma append_body_kind [simp]:
  "is_HTTPError (append_body e) = is_HTTPError e"
  "code_of (append_body e) = code_of e"
  by (cases e; simp)+

lemma backoff_trace_0: "backoff_trace r f i 0 = [Opened r]"
  by (simp add: backoff_trace_def)

lemma backoff_trace_Suc:
  "backoff_trace r f i (Suc k) = Opened r # Slept ((i + 1) * f) # backoff_trace r f (Suc i) k"
  by (simp add: backoff_trace_def upt_conv_Cons del: upt_Suc)

lemma attempt_0: "attempt c r w 0 = fst (opener c w r)"
  by (simp add: attempt_def)

lemma attempt_Suc: "attempt c r w (Suc n) = attempt c r (snd (opener c w r)) n"
  by (simp add: attempt_def)

text \<open>
  The loop from \<open>try_num = i\<close> on: after \<open>k\<close> failures that are retried, attempt \<open>k\<close>
  ends the run, because its outcome is not retried or because it is the last one allowed.
\<close>

lemma loop_run:
  assumes "i + k < MAX_TRIES c"
    and "\<forall>n<k. retried r4 (attempt c r (net s) n)"
    and "i + k = MAX_TRIES c - 1 \<or> \<not> retried r4 (attempt c r (net s) k)"
  shows "RetryRequest_loop c r d r4 [i ..< MAX_TRIES c] s =
           (last_result d r4 (attempt c r (net s) k),
            s\<lparr>net := net_after c r (net s) (Suc k),
              trace := trace s @ backoff_trace r (TRY_DELAY_FACTOR c) i k\<rparr>)"
  using assms
proof (induction k arbitrary: i s)
  case 0
  then have lst: "[i ..< MAX_TRIES c] = i # [Suc i ..< MAX_TRIES c]"
    by (simp add: upt_conv_Cons)
  obtain out w where ow: "opener c (net s) r = (out, w)"
    by (cases "opener c (net s) r")
  show ?case
  proof (cases out)
    case (Response body)
    then show ?thesis using ow
      by (simp add: lst opener_open_def attempt_0 backoff_trace_0)
  next
    case (Raised x)
    then show ?thesis using ow
      by (simp add: lst opener_open_def attempt_0 backoff_trace_0)
  next
    case (Failed e)
    then show ?thesis using ow "0.prems"
      by (auto simp: lst opener_open_def attempt_0 backoff_trace_0 is_4xx_def Let_def)
  qed
next
  case (Suc k)
  then have lst: "[i ..< MAX_TRIES c] = i # [Suc i ..< MAX_TRIES c]"
    by (simp add: upt_conv_Cons)
  obtain out w where ow: "opener c (net s) r = (out, w)"
    by (cases "opener c (net s) r")
  from Suc.prems(2) have r0: "retried r4 (attempt c r (net s) 0)" by blast
  then obtain e where out: "out = Failed e" and ne: "\<not> (is_4xx e \<and> \<not> r4)"
    using ow by (cases out) (auto simp: attempt_0)
  define s1 where
    "s1 = sleep ((i + 1) * TRY_DELAY_FACTOR c) (s\<lparr>net := w, trace := trace s @ [Opened r]\<rparr>)"
  have step: "RetryRequest_loop c r d r4 [i ..< MAX_TRIES c] s =
                RetryRequest_loop c r d r4 [Suc i ..< MAX_TRIES c] s1"
    using ow out ne Suc.prems(1)
    by (auto simp: lst opener_open_def is_4xx_def Let_def s1_def)
  have nets: "net s1 = w"
    by (simp add: s1_def sleep_def)
  have s1: "s1 = s\<lparr>net := w,
                    trace := trace s @ [Opened r, Slept ((i + 1) * TRY_DELAY_FACTOR c)]\<rparr>"
    by (simp add: s1_def sleep_def)
  have a: "attempt c r (net s1) n = attempt c r (net s) (Suc n)" for n
    using ow by (simp add: attempt_Suc nets)
  have ih: "RetryRequest_loop c r d r4 [Suc i ..< MAX_TRIES c] s1 =
           (last_result d r4 (attempt c r (net s1) k),
            s1\<lparr>net := net_after c r (net s1) (Suc k),
              trace := trace s1 @ backoff_trace r (TRY_DELAY_FACTOR c) (Suc i) k\<rparr>)"
  proof (rule Suc.IH)
    show "Suc i + k < MAX_TRIES c" using Suc.prems(1) by simp
    show "\<forall>n<k. retried r4 (attempt c r (net s1) n)" using Suc.prems(2) by (simp add: a)
    show "Suc i + k = MAX_TRIES c - 1 \<or> \<not> retried r4 (attempt c r (net s1) k)"
      using Suc.prems(3) by (simp add: a)
  qed
  have fin: "s1\<lparr>net := net_after c r (net s1) (Suc k),
              trace := trace s1 @ backoff_trace r (TRY_DELAY_FACTOR c) (Suc i) k\<rparr> =
            s\<lparr>net := net_after c r (net s) (Suc (Suc k)),
              trace := trace s @ backoff_trace r (TRY_DELAY_FACTOR c) i (Suc k)\<rparr>"
    using ow by (simp add: s1 backoff_trace_Suc)
  show ?case
    unfolding step ih fin a ..
qed

text \<open>Every run has such a last attempt, as soon as one attempt is allowed.\<close>

lemma run_exists:
  assumes "0 < (M::nat)"
  shows "\<exists>k<M. (\<forall>n<k. P n) \<and> (k = M - 1 \<or> \<not> P k)"
proof -
  define Q where "Q k = (k = M - 1 \<or> \<not> P k)" for k
  have ex: "Q (M - 1)" by (simp add: Q_def)
  define k where "k = (LEAST k. Q k)"
  have q: "Q k" unfolding k_def using ex by (rule LeastI)
  have le: "k \<le> M - 1" unfolding k_def using ex by (rule Least_le)
  have "\<And>n. n < k \<Longrightarrow> \<not> Q n" unfolding k_def by (rule not_less_Least)
  then have "\<forall>n<k. P n" by (auto simp: Q_def)
  with q le assms show ?thesis by (intro exI [of _ k]) (auto simp: Q_def)
qed

lemma RetryRequest_run:
  assumes "k < MAX_TRIES c"
    and "\<forall>n<k. retried r4 (attempt c (with_headers c request) (net s) n)"
    and "k = MAX_TRIES c - 1 \<or> \<not> retried r4 (attempt c (with_headers c request) (net s) k)"
  shows "RetryRequest c request d r4 s =
           (last_result d r4 (attempt c (with_headers c request) (net s) k),
            s\<lparr>net := net_after c (with_headers c request) (net s) (Suc k),
              trace := trace s @ backoff_trace (with_headers c request) (TRY_DELAY_FACTOR c) 0 k\<rparr>)"
  unfolding RetryRequest_def using loop_run [of 0 k c r4 "with_headers c request" s d] assms
  by simp

lemma sleeps_backoff_trace: "sleeps (backoff_trace r f i k) = map (\<lambda>n. (n + 1) * f) [i ..< i + k]"
proof (induction k arbitrary: i)
  case 0 show ?case by (simp add: backoff_trace_0)
next
  case (Suc k)
  have "[i ..< i + Suc k] = i # [Suc i ..< Suc i + k]" by (simp add: upt_conv_Cons del: upt_Suc)
  then show ?case by (simp add: backoff_trace_Suc Suc.IH del: upt_Suc)
qed

lemma opened_backoff_trace: "opened (backoff_trace r f i k) = replicate (Suc k) r"
proof (induction k arbitrary: i)
  case 0 show ?case by (simp add: backoff_trace_0)
next
  case (Suc k) then show ?case by (simp add: backoff_trace_Suc)
qed

text \<open>
  C1. With \<open>retry_4xx\<close> false and at least one try allowed, every run of the retry
  transport is a number \<open>k\<close> of failures other than 4xx, the failure of attempt \<open>n\<close>
  followed by a pause of \<open>(n + 1) * TRY_DELAY_FACTOR\<close> seconds and by the next attempt,
  and one last attempt with no pause after it; \<open>k\<close> is below \<open>MAX_TRIES\<close>, so at most
  \<open>MAX_TRIES\<close> attempts are made. When all \<open>MAX_TRIES\<close> attempts fail in this way the
  method raises \<open>RequestError\<close> with the words \<open>failed permanently\<close> and the text of the last
  error. With 5 tries, factor 5 and a connection error at every attempt the pauses are
  5, 10, 15 and 20 seconds, with five attempts.
\<close>

theorem RetryRequest_linear_backoff:
  assumes "0 < MAX_TRIES c"
  shows
    "(\<exists>k<MAX_TRIES c.
        (\<forall>n<k. retried False (attempt c (with_headers c request) (net s) n)) \<and>
        (k = MAX_TRIES c - 1 \<or> \<not> retried False (attempt c (with_headers c request) (net s) k)) \<and>
        trace (snd (RetryRequest c request description False s)) =
          trace s @ backoff_trace (with_headers c request) (TRY_DELAY_FACTOR c) 0 k \<and>
        fst (RetryRequest c request description False s) =
          last_result description False (attempt c (with_headers c request) (net s) k)) \<and>
     length (opened (drop (length (trace s)) (trace (snd (RetryRequest c request description False s)))))
        \<le> MAX_TRIES c \<and>
     ((\<forall>n<MAX_TRIES c. retried False (attempt c (with_headers c request) (net s) n)) \<longrightarrow>
        trace (snd (RetryRequest c request description False s)) =
          trace s @ backoff_trace (with_headers c request) (TRY_DELAY_FACTOR c) 0 (MAX_TRIES c - 1) \<and>
        (\<exists>e. attempt c (with_headers c request) (net s) (MAX_TRIES c - 1) = Failed e \<and>
             fst (RetryRequest c request description False s) =
               Inl (RequestError (description @ '' failed permanently: '' @
                                    str_urlerror (append_body e))))) \<and>
     (MAX_TRIES c = 5 \<and> TRY_DELAY_FACTOR c = 5 \<and>
      (\<forall>n<5. \<exists>reason. attempt c (with_headers c request) (net s) n = Failed (URLError reason)) \<longrightarrow>
        sleeps (drop (length (trace s)) (trace (snd (RetryRequest c request description False s))))
          = [5, 10, 15, 20] \<and>
        length (opened (drop (length (trace s))
                  (trace (snd (RetryRequest c request description False s))))) = 5 \<and>
        (\<exists>reason. attempt c (with_headers c request) (net s) 4 = Failed (URLError reason) \<and>
             fst (RetryRequest c request description False s) =
               Inl (RequestError (description @ '' failed permanently: <urlopen error '' @
                                    reason @ ''>''))))"
    (is "?run \<and> ?bound \<and> ?permanent \<and> ?defaults")
proof -
  let ?r = "with_headers c request"
  let ?res = "RetryRequest c request description False s"
  let ?P = "\<lambda>n. retried False (attempt c ?r (net s) n)"
  obtain k where k: "k < MAX_TRIES c" "\<forall>n<k. ?P n" "k = MAX_TRIES c - 1 \<or> \<not> ?P k"
    using run_exists [OF assms, of ?P] by blast
  have eq: "?res = (last_result description False (attempt c ?r (net s) k),
                    s\<lparr>net := net_after c ?r (net s) (Suc k),
                      trace := trace s @ backoff_trace ?r (TRY_DELAY_FACTOR c) 0 k\<rparr>)"
    using k by (rule RetryRequest_run)
  have run: ?run
    using k eq by (intro exI [of _ k]) simp
  have bound: ?bound
    using k(1) by (simp add: eq opened_backoff_trace)
  have permanent: ?permanent
  proof (intro impI)
    assume all: "\<forall>n<MAX_TRIES c. ?P n"
    let ?m = "MAX_TRIES c - 1"
    have m: "?m < MAX_TRIES c" using assms by simp
    have eqm: "?res = (last_result description False (attempt c ?r (net s) ?m),
                    s\<lparr>net := net_after c ?r (net s) (Suc ?m),
                      trace := trace s @ backoff_trace ?r (TRY_DELAY_FACTOR c) 0 ?m\<rparr>)"
      using m all by (intro RetryRequest_run) auto
    from all m have "?P ?m" by blast
    then obtain e where e: "attempt c ?r (net s) ?m = Failed e" "\<not> is_4xx e"
      by (cases "attempt c ?r (net s) ?m") auto
    show "trace (snd ?res) = trace s @ backoff_trace ?r (TRY_DELAY_FACTOR c) 0 ?m \<and>
          (\<exists>e. attempt c ?r (net s) ?m = Failed e \<and>
             fst ?res = Inl (RequestError (description @ '' failed permanently: '' @
                                    str_urlerror (append_body e))))"
      using e by (simp add: eqm)
  qed
  have defaults: ?defaults
  proof (intro impI, elim conjE)
    assume M: "MAX_TRIES c = 5" and F: "TRY_DELAY_FACTOR c = 5"
      and all: "\<forall>n<5. \<exists>reason. attempt c ?r (net s) n = Failed (URLError reason)"
    have "\<forall>n<MAX_TRIES c. ?P n"
    proof (intro allI impI)
      fix n assume "n < MAX_TRIES c"
      with all M obtain reason where "attempt c ?r (net s) n = Failed (URLError reason)" by auto
      then show "?P n" by (simp add: is_4xx_def)
    qed
    with permanent obtain e where
      tr: "trace (snd ?res) = trace s @ backoff_trace ?r 5 0 4"
      and e: "attempt c ?r (net s) 4 = Failed e"
        "fst ?res = Inl (RequestError (description @ '' failed permanently: '' @
                                    str_urlerror (append_body e)))"
      by (auto simp: M F)
    have "(4::nat) < 5" by simp
    with all obtain reason where rs: "attempt c ?r (net s) 4 = Failed (URLError reason)" by blast
    with e have ee: "e = URLError reason" by simp
    from rs e(2) have res: "\<exists>reason. attempt c ?r (net s) 4 = Failed (URLError reason) \<and>
             fst ?res = Inl (RequestError (description @ '' failed permanently: <urlopen error '' @
                                    reason @ ''>''))"
      unfolding ee by (intro exI [of _ reason]) simp
    have four: "[0 ..< 4] = [0, 1, 2, Suc 2]" by (simp add: upt_rec)
    show "sleeps (drop (length (trace s)) (trace (snd ?res))) = [5, 10, 15, 20] \<and>
        length (opened (drop (length (trace s)) (trace (snd ?res)))) = 5 \<and>
        (\<exists>reason. attempt c ?r (net s) 4 = Failed (URLError reason) \<and>
             fst ?res = Inl (RequestError (description @ '' failed permanently: <urlopen error '' @
                                    reason @ ''>'')))"
      using res by (simp add: tr sleeps_backoff_trace opened_backoff_trace four)
  qed
  from run bound permanent defaults show ?thesis by blast
qed


lemma example_opener: "opener (example_client server) w r = (server w r, Suc w)"
  by (simp add: example_client_def)

lemma example_net_after: "net_after (example_client server) r w n = w + n"
proof (induction n arbitrary: w)
  case 0 show ?case by simp
next
  case (Suc n)
  then show ?case by (simp add: example_opener)
qed

lemma example_attempt: "attempt (example_client server) r w n = server (w + n) r"
  by (simp add: attempt_def example_net_after) (simp add: example_client_def)

lemma refusing_attempt:
  "attempt (example_client (\<lambda>w r. out)) r w n = out"
  by (simp add: attempt_def example_client_def)

theorem RetryRequest_linear_backoff_witness:
  "0 < MAX_TRIES (example_client (\<lambda>w r. Failed (URLError ''Connection refused''))) \<and>
   MAX_TRIES (example_client (\<lambda>w r. Failed (URLError ''Connection refused''))) = 5 \<and>
   TRY_DELAY_FACTOR (example_client (\<lambda>w r. Failed (URLError ''Connection refused''))) = 5 \<and>
   sleeps (drop (length (trace start))
     (trace (snd (RetryRequest (example_client (\<lambda>w r. Failed (URLError ''Connection refused'')))
        (Request ''https://cv.example/xsrf-token/UploadPassphrase'')
        ''Fetching XSRF token'' False start)))) = [5, 10, 15, 20] \<and>
   length (opened (drop (length (trace start))
     (trace (snd (RetryRequest (example_client (\<lambda>w r. Failed (URLError ''Connection refused'')))
        (Request ''https://cv.example/xsrf-token/UploadPassphrase'')
        ''Fetching XSRF token'' False start))))) = 5 \<and>
   fst (RetryRequest (example_client (\<lambda>w r. Failed (URLError ''Connection refused'')))
        (Request ''https://cv.example/xsrf-token/UploadPassphrase'')
        ''Fetching XSRF token'' False start)
     = Inl (RequestError
         ''Fetching XSRF token failed permanently: <urlopen error Connection refused>'')"
proof -
  let ?c = "example_client (\<lambda>w r. Failed (URLError ''Connection refused''))"
  let ?r = "Request ''https://cv.example/xsrf-token/UploadPassphrase''"
  have h1: "0 < MAX_TRIES ?c" and M: "MAX_TRIES ?c = 5" and F: "TRY_DELAY_FACTOR ?c = 5"
    by (simp_all add: example_client_def default_MAX_TRIES_def default_TRY_DELAY_FACTOR_def)
  have all: "\<forall>n<5. \<exists>reason. attempt ?c (with_headers ?c ?r) (net start) n = Failed (URLError reason)"
    by (simp add: refusing_attempt)
  from RetryRequest_linear_backoff [OF h1, of ?r start "''Fetching XSRF token''"] M F all
  have "sleeps (drop (length (trace start))
          (trace (snd (RetryRequest ?c ?r ''Fetching XSRF token'' False start)))) = [5, 10, 15, 20] \<and>
        length (opened (drop (length (trace start))
          (trace (snd (RetryRequest ?c ?r ''Fetching XSRF token'' False start))))) = 5 \<and>
        (\<exists>reason. attempt ?c (with_headers ?c ?r) (net start) 4 = Failed (URLError reason) \<and>
             fst (RetryRequest ?c ?r ''Fetching XSRF token'' False start) =
               Inl (RequestError (''Fetching XSRF token'' @ '' failed permanently: <urlopen error '' @
                                    reason @ ''>'')))"
    by blast
  then show ?thesis
    using h1 M F by (simp add: refusing_attempt)
qed

text \<open>
  C2. With \<open>retry_4xx\<close> false, an answer with an HTTP status from 400 to 499 ends the
  request at that attempt: no pause and no further attempt follows, and the method raises
  \<open>RequestError\<close> whose message holds the status, the reason phrase and the body that the
  server sent. When it is the answer to the first attempt, the log grows by that one
  attempt and by no pause.
\<close>

theorem RetryRequest_4xx_fails_at_once:
  assumes "k < MAX_TRIES c"
    and "\<forall>n<k. retried False (attempt c (with_headers c request) (net s) n)"
    and "attempt c (with_headers c request) (net s) k = Failed (HTTPError status msg body)"
    and "400 \<le> status" and "status < 500"
  shows "RetryRequest c request description False s =
           (Inl (RequestError (description @ '' failed: HTTP Error '' @ str_int status @
                                 '': '' @ msg @ '': '' @ body)),
            s\<lparr>net := net_after c (with_headers c request) (net s) (Suc k),
              trace := trace s @
                backoff_trace (with_headers c request) (TRY_DELAY_FACTOR c) 0 k\<rparr>) \<and>
         (k = 0 \<longrightarrow>
            trace (snd (RetryRequest c request description False s)) =
              trace s @ [Opened (with_headers c request)] \<and>
            sleeps (drop (length (trace s))
                      (trace (snd (RetryRequest c request description False s)))) = [])"
proof -
  let ?r = "with_headers c request"
  have last: "\<not> retried False (attempt c ?r (net s) k)"
    using assms(3-5) by (simp add: is_4xx_def)
  have run: "RetryRequest c request description False s =
           (last_result description False (attempt c ?r (net s) k),
            s\<lparr>net := net_after c ?r (net s) (Suc k),
              trace := trace s @ backoff_trace ?r (TRY_DELAY_FACTOR c) 0 k\<rparr>)"
    using assms(1,2) last by (intro RetryRequest_run) simp_all
  have res: "last_result description False (attempt c ?r (net s) k) =
               Inl (RequestError (description @ '' failed: HTTP Error '' @ str_int status @
                                    '': '' @ msg @ '': '' @ body))"
    using assms(3-5) by (simp add: is_4xx_def)
  show ?thesis
    unfolding run res by (simp add: backoff_trace_0)
qed

theorem RetryRequest_4xx_fails_at_once_witness:
  "0 < MAX_TRIES (example_client (\<lambda>w r. Failed (HTTPError 403 ''Forbidden'' ''denied''))) \<and>
   attempt (example_client (\<lambda>w r. Failed (HTTPError 403 ''Forbidden'' ''denied'')))
     (with_headers (example_client (\<lambda>w r. Failed (HTTPError 403 ''Forbidden'' ''denied'')))
        (Request ''https://cv.example/xsrf-token/RetrieveSecret''))
     (net start) 0
     = Failed (HTTPError 403 ''Forbidden'' ''denied'') \<and>
   (400::int) \<le> 403 \<and> (403::int) < 500 \<and>
   RetryRequest (example_client (\<lambda>w r. Failed (HTTPError 403 ''Forbidden'' ''denied'')))
     (Request ''https://cv.example/xsrf-token/RetrieveSecret'') ''Fetching XSRF token'' False start
     = (Inl (RequestError ''Fetching XSRF token failed: HTTP Error 403: Forbidden: denied''),
        \<lparr>metadata = None, net = 1,
         trace = [Opened (Request ''https://cv.example/xsrf-token/RetrieveSecret'')]\<rparr>) \<and>
   1 < MAX_TRIES (example_client (\<lambda>w r. if w = 0
            then Failed (HTTPError 503 ''Service Unavailable'' ''busy'')
            else Failed (HTTPError 403 ''Forbidden'' ''denied''))) \<and>
   retried False (attempt (example_client (\<lambda>w r. if w = 0
            then Failed (HTTPError 503 ''Service Unavailable'' ''busy'')
            else Failed (HTTPError 403 ''Forbidden'' ''denied'')))
     (Request ''https://cv.example/xsrf-token/RetrieveSecret'') (net start) 0) \<and>
   RetryRequest (example_client (\<lambda>w r. if w = 0
            then Failed (HTTPError 503 ''Service Unavailable'' ''busy'')
            else Failed (HTTPError 403 ''Forbidden'' ''denied'')))
     (Request ''https://cv.example/xsrf-token/RetrieveSecret'') ''Fetching XSRF token'' False start
     = (Inl (RequestError ''Fetching XSRF token failed: HTTP Error 403: Forbidden: denied''),
        \<lparr>metadata = None, net = 2,
         trace = [Opened (Request ''https://cv.example/xsrf-token/RetrieveSecret''), Slept 5,
                  Opened (Request ''https://cv.example/xsrf-token/RetrieveSecret'')]\<rparr>)"
proof -
  let ?c = "example_client (\<lambda>w r. Failed (HTTPError 403 ''Forbidden'' ''denied''))"
  let ?d = "example_client (\<lambda>w r. if w = 0
            then Failed (HTTPError 503 ''Service Unavailable'' ''busy'')
            else Failed (HTTPError 403 ''Forbidden'' ''denied''))"
  let ?r = "Request ''https://cv.example/xsrf-token/RetrieveSecret''"
  have wc: "with_headers ?c ?r = ?r" and wd: "with_headers ?d ?r = ?r"
    by (simp_all add: example_client_def with_headers_def)
  have M: "MAX_TRIES ?c = 5" "MAX_TRIES ?d = 5" "TRY_DELAY_FACTOR ?d = 5"
    by (simp_all add: example_client_def default_MAX_TRIES_def default_TRY_DELAY_FACTOR_def)
  have s403: "str_int 403 = ''403''"
    by (simp add: str_int_def)
  have c0: "attempt ?c (with_headers ?c ?r) (net start) 0 = Failed (HTTPError 403 ''Forbidden'' ''denied'')"
    by (simp add: example_attempt)
  have d0: "attempt ?d (with_headers ?d ?r) (net start) 0
              = Failed (HTTPError 503 ''Service Unavailable'' ''busy'')"
    by (simp add: example_attempt start_def)
  have d1: "attempt ?d (with_headers ?d ?r) (net start) 1 = Failed (HTTPError 403 ''Forbidden'' ''denied'')"
    by (simp add: example_attempt start_def)
  have r0: "\<forall>n<1. retried False (attempt ?d (with_headers ?d ?r) (net start) n)"
    by (simp add: d0 is_4xx_def)
  have first: "RetryRequest ?c ?r ''Fetching XSRF token'' False start
     = (Inl (RequestError ''Fetching XSRF token failed: HTTP Error 403: Forbidden: denied''),
        \<lparr>metadata = None, net = 1, trace = [Opened ?r]\<rparr>)"
    using RetryRequest_4xx_fails_at_once
            [of 0 ?c ?r start 403 "''Forbidden''" "''denied''" "''Fetching XSRF token''"] c0
    by (simp add: M example_opener wc s403 backoff_trace_0 start_def)
  have second: "RetryRequest ?d ?r ''Fetching XSRF token'' False start
     = (Inl (RequestError ''Fetching XSRF token failed: HTTP Error 403: Forbidden: denied''),
        \<lparr>metadata = None, net = 2, trace = [Opened ?r, Slept 5, Opened ?r]\<rparr>)"
    using RetryRequest_4xx_fails_at_once
            [of 1 ?d ?r start 403 "''Forbidden''" "''denied''" "''Fetching XSRF token''"] r0 d1
    by (simp add: M example_opener wd s403 backoff_trace_0 backoff_trace_Suc start_def)
  have "retried False (attempt ?d ?r (net start) 0)"
    using d0 by (simp add: wd is_4xx_def)
  with first second c0 M show ?thesis by simp
qed

section \<open>Properties of \<open>GetAndValidateMetadata\<close> and \<open>RetrieveSecret\<close>\<close>

lemma offending_iff: "offending md key \<longleftrightarrow> \<not> truthy (dict_get md key)"
  by (simp add: offending_def dict_get_def split: option.split)

lemma check_required_find:
  "check_required md keys =
     (case find (offending md) keys of
        None \<Rightarrow> Inr ()
      | Some key \<Rightarrow> Inl (MetadataError (''Required metadata is not found: '' @ key)))"
  by (induction keys) (simp_all add: offending_iff)

lemma GetAndValidateMetadata_in_effect:
  assumes "metadata_in_effect c s = Some md"
  shows "GetAndValidateMetadata c s =
           (check_required md (REQUIRED_METADATA c), s\<lparr>metadata := Some md\<rparr>)"
  using assms
  by (auto simp: GetAndValidateMetadata_def metadata_in_effect_def
           split: if_splits sum.splits option.splits)

text \<open>
  C3. For the metadata \<open>md\<close> that a call validates and the list \<open>REQUIRED_METADATA\<close>,
  \<open>GetAndValidateMetadata\<close> raises \<open>MetadataError\<close> if and only if some required key is
  absent from \<open>md\<close> or maps to a falsy value, and the error names the first such key in
  the order of the list. The witness is the metadata \<open>{hostname: "h1", serial: ""}\<close> with
  the list \<open>["hostname", "serial"]\<close>, which names \<open>serial\<close>.
\<close>

theorem GetAndValidateMetadata_first_offending_key:
  assumes "metadata_in_effect c s = Some md"
  shows "((\<exists>msg. fst (GetAndValidateMetadata c s) = Inl (MetadataError msg)) \<longleftrightarrow>
            (\<exists>key \<in> set (REQUIRED_METADATA c). offending md key)) \<and>
         fst (GetAndValidateMetadata c s) =
           (case find (offending md) (REQUIRED_METADATA c) of
              None \<Rightarrow> Inr ()
            | Some key \<Rightarrow> Inl (MetadataError (''Required metadata is not found: '' @ key)))"
proof -
  have res: "fst (GetAndValidateMetadata c s) =
           (case find (offending md) (REQUIRED_METADATA c) of
              None \<Rightarrow> Inr ()
            | Some key \<Rightarrow> Inl (MetadataError (''Required metadata is not found: '' @ key)))"
    by (simp add: GetAndValidateMetadata_in_effect [OF assms] check_required_find)
  show ?thesis
  proof (cases "find (offending md) (REQUIRED_METADATA c)")
    case None
    then have "\<not> (\<exists>key \<in> set (REQUIRED_METADATA c). offending md key)"
      by (simp add: find_None_iff)
    then show ?thesis using res None by simp
  next
    case (Some key)
    then have "key \<in> set (REQUIRED_METADATA c)" "offending md key"
      by (auto simp: find_Some_iff)
    then show ?thesis using res Some by auto
  qed
qed

theorem GetAndValidateMetadata_first_offending_key_witness:
  "metadata_in_effect
     ((example_client (\<lambda>w r. Response [])) \<lparr>REQUIRED_METADATA := [''hostname'', ''serial'']\<rparr>)
     (start \<lparr>metadata := Some [(''hostname'', PStr ''h1''), (''serial'', PStr [])]\<rparr>)
     = Some [(''hostname'', PStr ''h1''), (''serial'', PStr [])] \<and>
   fst (GetAndValidateMetadata
     ((example_client (\<lambda>w r. Response [])) \<lparr>REQUIRED_METADATA := [''hostname'', ''serial'']\<rparr>)
     (start \<lparr>metadata := Some [(''hostname'', PStr ''h1''), (''serial'', PStr [])]\<rparr>))
     = Inl (MetadataError ''Required metadata is not found: serial'')"
proof -
  let ?c = "(example_client (\<lambda>w r. Response [])) \<lparr>REQUIRED_METADATA := [''hostname'', ''serial'']\<rparr>"
  let ?md = "[(''hostname'', PStr ''h1''), (''serial'', PStr [])]"
  let ?s = "start \<lparr>metadata := Some ?md\<rparr>"
  have h: "metadata_in_effect ?c ?s = Some ?md"
    by (simp add: metadata_in_effect_def)
  have req: "REQUIRED_METADATA ?c = [''hostname'', ''serial'']"
    by simp
  show ?thesis
    using GetAndValidateMetadata_first_offending_key [OF h] h
    by (simp add: req offending_def)
qed

lemma FetchXsrfToken_first_try:
  assumes "0 < MAX_TRIES c"
    and "opener c (net s) (xsrf_request c lib action) = (Response token, w)"
  shows "FetchXsrfToken c lib action s =
           (Inr token, s\<lparr>net := w, trace := trace s @ [Opened (xsrf_request c lib action)]\<rparr>)"
proof -
  let ?r = "Request (percent lib (xsrf_url c) action)"
  have a0: "attempt c (with_headers c ?r) (net s) 0 = Response token"
    using assms(2) by (simp add: attempt_0 xsrf_request_def)
  have "RetryRequest c ?r ''Fetching XSRF token'' False s =
          (Inr (Some token), s\<lparr>net := w, trace := trace s @ [Opened (with_headers c ?r)]\<rparr>)"
    using RetryRequest_run [of 0 c False ?r s "''Fetching XSRF token''"] assms
    by (simp add: a0 backoff_trace_0 xsrf_request_def)
  then show ?thesis
    by (simp add: FetchXsrfToken_def xsrf_request_def)
qed

text \<open>
  C4. Once the token is fetched, a failure of the GET of \<open>RetrieveSecret\<close> with HTTP
  status 404 raises \<open>NotFoundError\<close>, a subclass of \<open>RequestError\<close> and not that class
  itself; every other \<open>HTTPError\<close> or \<open>URLError\<close> of that GET raises \<open>RequestError\<close>.
\<close>

theorem RetrieveSecret_404_is_NotFoundError:
  assumes "FetchXsrfToken c lib GET_PASSPHRASE_ACTION s = (Inr xsrf_token, s1)"
    and "opener c (net s1) (secret_request c lib target_id xsrf_token) = (Failed e, w)"
  shows "(\<forall>msg body. e = HTTPError 404 msg body \<longrightarrow>
            fst (RetrieveSecret c lib target_id s) =
              Inl (NotFoundError (''Failed to retrieve passphrase. HTTP Error 404: '' @
                                    msg @ '': '' @ body))) \<and>
         (\<not> (is_HTTPError e \<and> code_of e = 404) \<longrightarrow>
            fst (RetrieveSecret c lib target_id s) =
              Inl (RequestError (''Failed to retrieve passphrase. '' @
                                   str_urlerror (append_body e)))) \<and>
         (\<exists>err. fst (RetrieveSecret c lib target_id s) = Inl err \<and> is_RequestError err) \<and>
         snd (RetrieveSecret c lib target_id s) =
           s1\<lparr>net := w, trace := trace s1 @ [Opened (secret_request c lib target_id xsrf_token)]\<rparr>"
proof -
  have s404: "str_int 404 = ''404''" by (simp add: str_int_def)
  have eq: "RetrieveSecret c lib target_id s =
          (if is_HTTPError e \<and> code_of e = 404
           then Inl (NotFoundError (''Failed to retrieve passphrase. '' @ str_urlerror (append_body e)))
           else Inl (RequestError (''Failed to retrieve passphrase. '' @ str_urlerror (append_body e))),
           s1\<lparr>net := w, trace := trace s1 @ [Opened (secret_request c lib target_id xsrf_token)]\<rparr>)"
    using assms
    by (simp add: RetrieveSecret_def secret_request_def opener_open_def Let_def NOT_FOUND_def)
  show ?thesis
    unfolding eq by (auto simp: s404)
qed


lemma example_with_headers [simp]: "with_headers (example_client server) r = r"
  by (simp add: with_headers_def example_client_def)

lemma example_token_fetch:
  assumes "action \<in> {GET_PASSPHRASE_ACTION, SET_PASSPHRASE_ACTION}"
  shows "FetchXsrfToken (example_client (token_server out)) example_lib action s =
           (Inr ''T0K3N'',
            s\<lparr>net := Suc (net s),
              trace := trace s @ [Opened (Request (''https://cv.example/xsrf-token/'' @ action))]\<rparr>)"
proof -
  let ?c = "example_client (token_server out)"
  have r: "xsrf_request ?c example_lib action = Request (''https://cv.example/xsrf-token/'' @ action)"
    by (simp add: xsrf_request_def example_lib_def) (simp add: example_client_def)
  have h1: "0 < MAX_TRIES ?c"
    by (simp add: example_client_def default_MAX_TRIES_def)
  have h2: "opener ?c (net s) (xsrf_request ?c example_lib action) = (Response ''T0K3N'', Suc (net s))"
    unfolding r using assms
    by (auto simp: example_client_def token_server_def Request_def
                   GET_PASSPHRASE_ACTION_def SET_PASSPHRASE_ACTION_def)
  show ?thesis
    using FetchXsrfToken_first_try [OF h1 h2] by (simp add: r)
qed

lemma example_secret_request:
  "secret_request (example_client server) example_lib ''VOL1'' ''T0K3N'' =
     Request ''https://cv.example/filevault/VOL1?xsrf-token=T0K3N''"
  by (simp add: secret_request_def example_lib_def) (simp add: example_client_def)

lemma example_secret_answer:
  "opener (example_client (token_server out)) w
     (Request ''https://cv.example/filevault/VOL1?xsrf-token=T0K3N'') = (out, Suc w)"
  by (simp add: example_client_def token_server_def Request_def)

theorem RetrieveSecret_404_is_NotFoundError_witness:
  "FetchXsrfToken
     (example_client (token_server (Failed (HTTPError 404 ''Not Found'' ''no passphrase''))))
     example_lib GET_PASSPHRASE_ACTION start
     = (Inr ''T0K3N'',
        \<lparr>metadata = None, net = 1,
         trace = [Opened (Request ''https://cv.example/xsrf-token/RetrieveSecret'')]\<rparr>) \<and>
   opener (example_client (token_server (Failed (HTTPError 404 ''Not Found'' ''no passphrase''))))
     1 (secret_request
          (example_client (token_server (Failed (HTTPError 404 ''Not Found'' ''no passphrase''))))
          example_lib ''VOL1'' ''T0K3N'')
     = (Failed (HTTPError 404 ''Not Found'' ''no passphrase''), 2) \<and>
   fst (RetrieveSecret
     (example_client (token_server (Failed (HTTPError 404 ''Not Found'' ''no passphrase''))))
     example_lib ''VOL1'' start)
     = Inl (NotFoundError
              ''Failed to retrieve passphrase. HTTP Error 404: Not Found: no passphrase'')"
proof -
  let ?c = "example_client (token_server (Failed (HTTPError 404 ''Not Found'' ''no passphrase'')))"
  let ?s1 = "\<lparr>metadata = None, net = 1::nat,
         trace = [Opened (Request ''https://cv.example/xsrf-token/RetrieveSecret'')]\<rparr>"
  have h1: "FetchXsrfToken ?c example_lib GET_PASSPHRASE_ACTION start = (Inr ''T0K3N'', ?s1)"
    by (simp add: example_token_fetch) (simp add: start_def GET_PASSPHRASE_ACTION_def)
  have h2: "opener ?c (net ?s1) (secret_request ?c example_lib ''VOL1'' ''T0K3N'')
              = (Failed (HTTPError 404 ''Not Found'' ''no passphrase''), 2)"
    by (simp add: example_secret_request example_secret_answer)
  show ?thesis
    using RetrieveSecret_404_is_NotFoundError [OF h1 h2] h1 h2 by simp
qed

text \<open>
  C5. Once the token is fetched and the GET is answered with a body: a body that starts
  with \<open>JSON_PREFIX\<close> is decoded after the prefix and the value under \<open>'passphrase'\<close> is
  returned; a body without the prefix raises \<open>RequestError('Expected JSON prefix
  missing.')\<close>.
\<close>

theorem RetrieveSecret_strips_prefix_and_returns_passphrase:
  assumes "FetchXsrfToken c lib GET_PASSPHRASE_ACTION s = (Inr xsrf_token, s1)"
    and "opener c (net s1) (secret_request c lib target_id xsrf_token) = (Response content, w)"
  shows "(startswith content JSON_PREFIX \<longrightarrow>
            fst (RetrieveSecret c lib target_id s) =
              (case loads lib (drop (length JSON_PREFIX) content) of
                 Inl e \<Rightarrow> Inl e
               | Inr data \<Rightarrow> getitem data PASSPHRASE_KEY)) \<and>
         (\<forall>rest kvs v. content = JSON_PREFIX @ rest \<and> loads lib rest = Inr (PDict kvs) \<and>
                        map_of kvs ''passphrase'' = Some v \<longrightarrow>
            fst (RetrieveSecret c lib target_id s) = Inr v) \<and>
         (\<not> startswith content JSON_PREFIX \<longrightarrow>
            fst (RetrieveSecret c lib target_id s) =
              Inl (RequestError ''Expected JSON prefix missing.''))"
proof -
  have eq: "fst (RetrieveSecret c lib target_id s) =
          (if \<not> startswith content JSON_PREFIX
           then Inl (RequestError ''Expected JSON prefix missing.'')
           else (case loads lib (drop (length JSON_PREFIX) content) of
                   Inl e \<Rightarrow> Inl e
                 | Inr data \<Rightarrow> getitem data PASSPHRASE_KEY))"
    using assms
    by (simp add: RetrieveSecret_def secret_request_def opener_open_def Let_def split: sum.split)
  show ?thesis
    unfolding eq by (auto simp: startswith_def PASSPHRASE_KEY_def)
qed

lemma loads_secret_document:
  "json_loads secret_document = Inr (PDict [(''passphrase'', PStr ''p1'')])"
  unfolding secret_document_def by code_simp

theorem RetrieveSecret_strips_prefix_and_returns_passphrase_witness:
  "FetchXsrfToken (example_client (token_server (Response (JSON_PREFIX @ secret_document))))
     example_lib GET_PASSPHRASE_ACTION start
     = (Inr ''T0K3N'',
        \<lparr>metadata = None, net = 1,
         trace = [Opened (Request ''https://cv.example/xsrf-token/RetrieveSecret'')]\<rparr>) \<and>
   opener (example_client (token_server (Response (JSON_PREFIX @ secret_document))))
     1 (secret_request (example_client (token_server (Response (JSON_PREFIX @ secret_document))))
          example_lib ''VOL1'' ''T0K3N'')
     = (Response (JSON_PREFIX @ secret_document), 2) \<and>
   startswith (JSON_PREFIX @ secret_document) JSON_PREFIX \<and>
   loads example_lib secret_document = Inr (PDict [(''passphrase'', PStr ''p1'')]) \<and>
   map_of [(''passphrase'', PStr ''p1'')] ''passphrase'' = Some (PStr ''p1'') \<and>
   fst (RetrieveSecret (example_client (token_server (Response (JSON_PREFIX @ secret_document))))
          example_lib ''VOL1'' start) = Inr (PStr ''p1'') \<and>
   FetchXsrfToken (example_client (token_server (Response secret_document)))
     example_lib GET_PASSPHRASE_ACTION start
     = (Inr ''T0K3N'',
        \<lparr>metadata = None, net = 1,
         trace = [Opened (Request ''https://cv.example/xsrf-token/RetrieveSecret'')]\<rparr>) \<and>
   opener (example_client (token_server (Response secret_document)))
     1 (secret_request (example_client (token_server (Response secret_document)))
          example_lib ''VOL1'' ''T0K3N'')
     = (Response secret_document, 2) \<and>
   \<not> startswith secret_document JSON_PREFIX \<and>
   fst (RetrieveSecret (example_client (token_server (Response secret_document)))
          example_lib ''VOL1'' start) = Inl (RequestError ''Expected JSON prefix missing.'')"
proof -
  let ?good = "example_client (token_server (Response (JSON_PREFIX @ secret_document)))"
  let ?bad = "example_client (token_server (Response secret_document))"
  let ?s1 = "\<lparr>metadata = None, net = 1::nat,
         trace = [Opened (Request ''https://cv.example/xsrf-token/RetrieveSecret'')]\<rparr>"
  have g1: "FetchXsrfToken ?good example_lib GET_PASSPHRASE_ACTION start = (Inr ''T0K3N'', ?s1)"
    by (simp add: example_token_fetch) (simp add: start_def GET_PASSPHRASE_ACTION_def)
  have g2: "opener ?good (net ?s1) (secret_request ?good example_lib ''VOL1'' ''T0K3N'')
              = (Response (JSON_PREFIX @ secret_document), 2)"
    by (simp add: example_secret_request example_secret_answer)
  have b1: "FetchXsrfToken ?bad example_lib GET_PASSPHRASE_ACTION start = (Inr ''T0K3N'', ?s1)"
    by (simp add: example_token_fetch) (simp add: start_def GET_PASSPHRASE_ACTION_def)
  have b2: "opener ?bad (net ?s1) (secret_request ?bad example_lib ''VOL1'' ''T0K3N'')
              = (Response secret_document, 2)"
    by (simp add: example_secret_request example_secret_answer)
  have p: "startswith (JSON_PREFIX @ secret_document) JSON_PREFIX"
    by (simp add: startswith_def)
  have l: "loads example_lib secret_document = Inr (PDict [(''passphrase'', PStr ''p1'')])"
    by (simp add: example_lib_def loads_secret_document)
  have np: "\<not> startswith secret_document JSON_PREFIX"
    by (simp add: startswith_def JSON_PREFIX_def secret_document_def)
  from RetrieveSecret_strips_prefix_and_returns_passphrase [OF g1 g2] l
  have good: "fst (RetrieveSecret ?good example_lib ''VOL1'' start) = Inr (PStr ''p1'')"
    by simp
  from RetrieveSecret_strips_prefix_and_returns_passphrase [OF b1 b2] np
  have bad: "fst (RetrieveSecret ?bad example_lib ''VOL1'' start)
               = Inl (RequestError ''Expected JSON prefix missing.'')"
    by blast
  show ?thesis
    using g1 g2 b1 b2 p l np good bad by simp
qed

section \<open>What each operation does to the network and to the log\<close>

lemma RetryRequest_no_tries:
  "MAX_TRIES c = 0 \<Longrightarrow> RetryRequest c request d r4 s = (Inr None, s)"
  by (simp add: RetryRequest_def)

lemma RetryRequest_cases:
  assumes "0 < MAX_TRIES c"
  shows "\<exists>k<MAX_TRIES c.
           RetryRequest c request d r4 s =
             (last_result d r4 (attempt c (with_headers c request) (net s) k),
              s\<lparr>net := net_after c (with_headers c request) (net s) (Suc k),
                trace := trace s @
                  backoff_trace (with_headers c request) (TRY_DELAY_FACTOR c) 0 k\<rparr>)"
proof -
  let ?P = "\<lambda>n. retried r4 (attempt c (with_headers c request) (net s) n)"
  obtain k where k: "k < MAX_TRIES c" "\<forall>n<k. ?P n" "k = MAX_TRIES c - 1 \<or> \<not> ?P k"
    using run_exists [OF assms, of ?P] by blast
  from RetryRequest_run [OF k] k(1) show ?thesis by blast
qed

lemma backoff_trace_head: "\<exists>evs. backoff_trace r f i k = Opened r # evs"
  by (cases k) (simp_all add: backoff_trace_0 backoff_trace_Suc)


lemma last_result_Some:
  "last_result d r4 out = Inr v \<Longrightarrow> \<exists>body. v = Some body \<and> out = Response body"
  by (cases out) (auto split: if_splits)

lemma last_result_error:
  "last_result d r4 out = Inl e \<Longrightarrow> (\<exists>m. e = RequestError m) \<or> (\<exists>x. e = OtherException x)"
  by (cases out) (auto split: if_splits)

text \<open>What a run of the retry transport can leave behind.\<close>

lemma RetryRequest_effect:
  obtains (none) "MAX_TRIES c = 0" "RetryRequest c request d r4 s = (Inr None, s)"
  | (run) k where "k < MAX_TRIES c"
      "RetryRequest c request d r4 s =
             (last_result d r4 (attempt c (with_headers c request) (net s) k),
              s\<lparr>net := net_after c (with_headers c request) (net s) (Suc k),
                trace := trace s @
                  backoff_trace (with_headers c request) (TRY_DELAY_FACTOR c) 0 k\<rparr>)"
proof (cases "MAX_TRIES c = 0")
  case True
  then show ?thesis using none RetryRequest_no_tries by blast
next
  case False
  then have "0 < MAX_TRIES c" by simp
  from RetryRequest_cases [OF this] show ?thesis using run by blast
qed

lemma FetchXsrfToken_effect:
  obtains (none) "MAX_TRIES c = 0" "FetchXsrfToken c lib action s = (Inl AttributeError, s)"
  | (failed) k e where "k < MAX_TRIES c"
      "last_result ''Fetching XSRF token'' False (attempt c (xsrf_request c lib action) (net s) k) = Inl e"
      "FetchXsrfToken c lib action s =
             (Inl e,
              s\<lparr>net := net_after c (xsrf_request c lib action) (net s) (Suc k),
                trace := trace s @
                  backoff_trace (xsrf_request c lib action) (TRY_DELAY_FACTOR c) 0 k\<rparr>)"
  | (fetched) k token where "k < MAX_TRIES c"
      "attempt c (xsrf_request c lib action) (net s) k = Response token"
      "FetchXsrfToken c lib action s =
             (Inr token,
              s\<lparr>net := net_after c (xsrf_request c lib action) (net s) (Suc k),
                trace := trace s @
                  backoff_trace (xsrf_request c lib action) (TRY_DELAY_FACTOR c) 0 k\<rparr>)"
proof -
  let ?req = "Request (percent lib (xsrf_url c) action)"
  show ?thesis
  proof (cases rule: RetryRequest_effect [of c ?req "''Fetching XSRF token''" False s])
    case none
    then show ?thesis using that(1) by (simp add: FetchXsrfToken_def)
  next
    case (run k)
    let ?out = "attempt c (xsrf_request c lib action) (net s) k"
    show ?thesis
    proof (cases "last_result ''Fetching XSRF token'' False ?out")
      case (Inl e)
      then show ?thesis using run that(2) [of k e]
        by (simp add: FetchXsrfToken_def xsrf_request_def)
    next
      case (Inr v)
      then obtain token where "v = Some token" "?out = Response token"
        using last_result_Some by blast
      then show ?thesis using run Inr that(3) [of k token]
        by (simp add: FetchXsrfToken_def xsrf_request_def)
    qed
  qed
qed

lemma with_headers_method [simp]: "get_method (with_headers c r) = get_method r"
proof -
  have "get_method (fold (\<lambda>(k, v) r. add_header k v r) hs r) = get_method r" for hs
    by (induction hs arbitrary: r) (auto simp: add_header_def)
  then show ?thesis by (simp add: with_headers_def)
qed

lemma xsrf_request_is_GET [simp]: "get_method (xsrf_request c lib action) = GET"
  by (simp add: xsrf_request_def Request_def)

lemma FetchXsrfToken_keeps_metadata:
  "metadata (snd (FetchXsrfToken c lib action s)) = metadata s"
  by (cases rule: FetchXsrfToken_effect [of c lib action s]) simp_all

text \<open>The statements of \<open>UploadPassphrase\<close> after the token is fetched.\<close>

lemma UploadPassphrase_after_token:
  assumes "FetchXsrfToken c lib SET_PASSPHRASE_ACTION s = (Inr xsrf_token, s1)"
  shows "UploadPassphrase c lib target_id passphrase r4 s =
     (case (if no_metadata (metadata s1) then GetAndValidateMetadata c s1 else (Inr (), s1)) of
        (Inl e, s2) \<Rightarrow> (Inl e, s2)
      | (Inr u, s2) \<Rightarrow>
          (case metadata s2 of
             None \<Rightarrow> (Inl AttributeError, s2)
           | Some md \<Rightarrow>
               (case RetryRequest c
                       (PutRequest (escrow_url c @ ''?'' @
                          urlencode lib (AList.update ''volume_uuid'' (PStr target_id)
                                           (AList.update ''xsrf-token'' (PStr xsrf_token) md)))
                        passphrase)
                       ''Uploading passphrase'' r4 s2 of
                  (Inl e, s3) \<Rightarrow> (Inl e, s3)
                | (Inr response, s3) \<Rightarrow> (Inr (), s3))))"
  using assms
  by (simp add: UploadPassphrase_def Let_def split: prod.split sum.split option.split)

lemma UploadPassphrase_token_failed:
  assumes "FetchXsrfToken c lib SET_PASSPHRASE_ACTION s = (Inl e, s1)"
  shows "UploadPassphrase c lib target_id passphrase r4 s = (Inl e, s1)"
  using assms by (simp add: UploadPassphrase_def)

lemma check_required_result:
  "check_required md keys = Inr () \<or> (\<exists>m. check_required md keys = Inl (MetadataError m))"
  by (induction keys) auto

lemma FetchXsrfToken_fetched_tries:
  assumes "FetchXsrfToken c lib action s = (Inr token, s1)"
  shows "0 < MAX_TRIES c"
  using assms by (cases rule: FetchXsrfToken_effect [of c lib action s]) auto

text \<open>The three ways in which \<open>UploadPassphrase\<close> goes on once it holds a token.\<close>

lemma UploadPassphrase_effect:
  assumes "FetchXsrfToken c lib SET_PASSPHRASE_ACTION s = (Inr xsrf_token, s1)"
  obtains (gather_raised) e where "no_metadata (metadata s1)" "GetMetadata c = Inl e"
      "UploadPassphrase c lib target_id passphrase r4 s = (Inl e, s1)"
  | (invalid) md m where "no_metadata (metadata s1)" "GetMetadata c = Inr md"
      "check_required md (REQUIRED_METADATA c) = Inl (MetadataError m)"
      "UploadPassphrase c lib target_id passphrase r4 s =
         (Inl (MetadataError m), s1\<lparr>metadata := Some md\<rparr>)"
  | (sent) md j where "metadata_in_effect c s1 = Some md" "j < MAX_TRIES c"
      "UploadPassphrase c lib target_id passphrase r4 s =
         (case last_result ''Uploading passphrase'' r4
                 (attempt c (upload_request c lib target_id passphrase xsrf_token md) (net s1) j) of
            Inl e \<Rightarrow> Inl e | Inr response \<Rightarrow> Inr (),
          s1\<lparr>metadata := Some md,
             net := net_after c (upload_request c lib target_id passphrase xsrf_token md) (net s1) (Suc j),
             trace := trace s1 @
               backoff_trace (upload_request c lib target_id passphrase xsrf_token md)
                 (TRY_DELAY_FACTOR c) 0 j\<rparr>)"
proof -
  have M: "0 < MAX_TRIES c" using assms by (rule FetchXsrfToken_fetched_tries)
  note up = UploadPassphrase_after_token [OF assms, of target_id passphrase r4]
  have put: "\<exists>j<MAX_TRIES c.
      (case RetryRequest c
              (PutRequest (escrow_url c @ ''?'' @
                 urlencode lib (AList.update ''volume_uuid'' (PStr target_id)
                                  (AList.update ''xsrf-token'' (PStr xsrf_token) md)))
               passphrase)
              ''Uploading passphrase'' r4 s2 of
         (Inl e, s3) \<Rightarrow> (Inl e, s3)
       | (Inr response, s3) \<Rightarrow> (Inr (), s3)) =
      (case last_result ''Uploading passphrase'' r4
                 (attempt c (upload_request c lib target_id passphrase xsrf_token md) (net s2) j) of
            Inl e \<Rightarrow> Inl e | Inr response \<Rightarrow> Inr (),
          s2\<lparr>net := net_after c (upload_request c lib target_id passphrase xsrf_token md) (net s2) (Suc j),
             trace := trace s2 @
               backoff_trace (upload_request c lib target_id passphrase xsrf_token md)
                 (TRY_DELAY_FACTOR c) 0 j\<rparr>)" for md s2
  proof -
    obtain j where "j < MAX_TRIES c" and
      "RetryRequest c
              (PutRequest (escrow_url c @ ''?'' @
                 urlencode lib (AList.update ''volume_uuid'' (PStr target_id)
                                  (AList.update ''xsrf-token'' (PStr xsrf_token) md)))
               passphrase)
              ''Uploading passphrase'' r4 s2 =
        (last_result ''Uploading passphrase'' r4
                 (attempt c (upload_request c lib target_id passphrase xsrf_token md) (net s2) j),
          s2\<lparr>net := net_after c (upload_request c lib target_id passphrase xsrf_token md) (net s2) (Suc j),
             trace := trace s2 @
               backoff_trace (upload_request c lib target_id passphrase xsrf_token md)
                 (TRY_DELAY_FACTOR c) 0 j\<rparr>)"
      using RetryRequest_cases [OF M] unfolding upload_request_def by blast
    then show ?thesis
      by (intro exI [of _ j]) (simp split: sum.split)
  qed
  show ?thesis
  proof (cases "no_metadata (metadata s1)")
    case False
    then obtain md where md: "metadata s1 = Some md" by (cases "metadata s1") auto
    then have eff: "metadata_in_effect c s1 = Some md"
      using False by (simp add: metadata_in_effect_def)
    have s1: "s1\<lparr>metadata := Some md\<rparr> = s1" using md by simp
    from put [of md s1] obtain j where j: "j < MAX_TRIES c"
      "UploadPassphrase c lib target_id passphrase r4 s =
         (case last_result ''Uploading passphrase'' r4
                 (attempt c (upload_request c lib target_id passphrase xsrf_token md) (net s1) j) of
            Inl e \<Rightarrow> Inl e | Inr response \<Rightarrow> Inr (),
          s1\<lparr>net := net_after c (upload_request c lib target_id passphrase xsrf_token md) (net s1) (Suc j),
             trace := trace s1 @
               backoff_trace (upload_request c lib target_id passphrase xsrf_token md)
                 (TRY_DELAY_FACTOR c) 0 j\<rparr>)"
      using False md by (auto simp: up)
    show ?thesis
      using sent [OF eff j(1)] j(2) md by simp
  next
    case True
    show ?thesis
    proof (cases "GetMetadata c")
      case (Inl e)
      then have "GetAndValidateMetadata c s1 = (Inl e, s1)"
        using True by (simp add: GetAndValidateMetadata_def)
      then show ?thesis using gather_raised [OF True Inl] True by (simp add: up)
    next
      case (Inr md)
      then have eff: "metadata_in_effect c s1 = Some md"
        using True by (simp add: metadata_in_effect_def)
      have g: "GetAndValidateMetadata c s1 =
                 (check_required md (REQUIRED_METADATA c), s1\<lparr>metadata := Some md\<rparr>)"
        using eff by (rule GetAndValidateMetadata_in_effect)
      from check_required_result [of md "REQUIRED_METADATA c"] show ?thesis
      proof
        assume ok: "check_required md (REQUIRED_METADATA c) = Inr ()"
        from put [of md "s1\<lparr>metadata := Some md\<rparr>"] obtain j where j: "j < MAX_TRIES c"
          "UploadPassphrase c lib target_id passphrase r4 s =
             (case last_result ''Uploading passphrase'' r4
                 (attempt c (upload_request c lib target_id passphrase xsrf_token md) (net s1) j) of
                Inl e \<Rightarrow> Inl e | Inr response \<Rightarrow> Inr (),
              s1\<lparr>metadata := Some md,
                 net := net_after c (upload_request c lib target_id passphrase xsrf_token md) (net s1) (Suc j),
                 trace := trace s1 @
                   backoff_trace (upload_request c lib target_id passphrase xsrf_token md)
                     (TRY_DELAY_FACTOR c) 0 j\<rparr>)"
          using True g ok by (auto simp: up)
        show ?thesis using sent [OF eff j(1)] j(2) by simp
      next
        assume "\<exists>m. check_required md (REQUIRED_METADATA c) = Inl (MetadataError m)"
        then obtain m where m: "check_required md (REQUIRED_METADATA c) = Inl (MetadataError m)" ..
        then show ?thesis using invalid [OF True Inr m] True g by (simp add: up)
      qed
    qed
  qed
qed

section \<open>Properties of \<open>UploadPassphrase\<close>\<close>

lemma token_server_fetch:
  assumes "xsrf_url c = ''https://cv.example/xsrf-token/%s''" and "headers c = []"
    and "0 < MAX_TRIES c" and "opener c = (\<lambda>w r. (token_server out w r, Suc w))"
    and "action \<in> {GET_PASSPHRASE_ACTION, SET_PASSPHRASE_ACTION}"
  shows "FetchXsrfToken c example_lib action s =
           (Inr ''T0K3N'',
            s\<lparr>net := Suc (net s),
              trace := trace s @ [Opened (Request (''https://cv.example/xsrf-token/'' @ action))]\<rparr>)"
proof -
  have r: "xsrf_request c example_lib action = Request (''https://cv.example/xsrf-token/'' @ action)"
    using assms(1,2) by (simp add: xsrf_request_def example_lib_def with_headers_def)
  have h2: "opener c (net s) (xsrf_request c example_lib action) = (Response ''T0K3N'', Suc (net s))"
    unfolding r using assms(4,5)
    by (auto simp: token_server_def Request_def
                   GET_PASSPHRASE_ACTION_def SET_PASSPHRASE_ACTION_def)
  show ?thesis
    using FetchXsrfToken_first_try [OF assms(3) h2] by (simp add: r)
qed

text \<open>
  C10. \<open>UploadPassphrase\<close> fetches the token before it gathers and validates metadata.
  When it raises \<open>MetadataError\<close>, the token fetch has returned a token, the requests
  opened by the call are token requests only (at least one, none of them a PUT), and the
  network and the log are as the token fetch left them. When the token fetch fails, the
  call fails with that error and the cached metadata are untouched.
\<close>

theorem UploadPassphrase_MetadataError_after_token_before_PUT:
  "(\<forall>m s'. UploadPassphrase c lib target_id passphrase retry_4xx s = (Inl (MetadataError m), s') \<longrightarrow>
      (\<exists>xsrf_token s1.
           FetchXsrfToken c lib SET_PASSPHRASE_ACTION s = (Inr xsrf_token, s1) \<and>
           net s' = net s1 \<and> trace s' = trace s1 \<and>
           opened (drop (length (trace s)) (trace s')) \<noteq> [] \<and>
           (\<forall>r \<in> set (opened (drop (length (trace s)) (trace s'))).
              r = xsrf_request c lib SET_PASSPHRASE_ACTION \<and> get_method r \<noteq> PUT))) \<and>
   (\<forall>e s1. FetchXsrfToken c lib SET_PASSPHRASE_ACTION s = (Inl e, s1) \<longrightarrow>
      UploadPassphrase c lib target_id passphrase retry_4xx s = (Inl e, s1) \<and>
      metadata s1 = metadata s)"
proof (intro conjI allI impI)
  fix e s1
  assume f: "FetchXsrfToken c lib SET_PASSPHRASE_ACTION s = (Inl e, s1)"
  then show "UploadPassphrase c lib target_id passphrase retry_4xx s = (Inl e, s1)"
    by (rule UploadPassphrase_token_failed)
  from FetchXsrfToken_keeps_metadata [of c lib SET_PASSPHRASE_ACTION s] f
  show "metadata s1 = metadata s" by simp
next
  fix m s'
  assume up: "UploadPassphrase c lib target_id passphrase retry_4xx s = (Inl (MetadataError m), s')"
  let ?x = "xsrf_request c lib SET_PASSPHRASE_ACTION"
  show "\<exists>xsrf_token s1.
           FetchXsrfToken c lib SET_PASSPHRASE_ACTION s = (Inr xsrf_token, s1) \<and>
           net s' = net s1 \<and> trace s' = trace s1 \<and>
           opened (drop (length (trace s)) (trace s')) \<noteq> [] \<and>
           (\<forall>r \<in> set (opened (drop (length (trace s)) (trace s'))). r = ?x \<and> get_method r \<noteq> PUT)"
  proof (cases rule: FetchXsrfToken_effect [of c lib SET_PASSPHRASE_ACTION s])
    case none
    with up show ?thesis by (simp add: UploadPassphrase_token_failed)
  next
    case (failed k e)
    from failed(2) have "(\<exists>m. e = RequestError m) \<or> (\<exists>x. e = OtherException x)"
      by (rule last_result_error)
    with failed(3) up show ?thesis by (auto simp: UploadPassphrase_token_failed)
  next
    case (fetched k token)
    define s1 where "s1 = s\<lparr>net := net_after c ?x (net s) (Suc k),
                  trace := trace s @ backoff_trace ?x (TRY_DELAY_FACTOR c) 0 k\<rparr>"
    have f: "FetchXsrfToken c lib SET_PASSPHRASE_ACTION s = (Inr token, s1)"
      using fetched(3) by (simp add: s1_def)
    have op: "opened (drop (length (trace s)) (trace s1)) = replicate (Suc k) ?x"
      by (simp add: s1_def opened_backoff_trace)
    have same: "net s' = net s1 \<and> trace s' = trace s1"
      using f
    proof (cases rule: UploadPassphrase_effect [where target_id = target_id
                         and passphrase = passphrase and ?r4.0 = retry_4xx])
      case (gather_raised e)
      with up show ?thesis by simp
    next
      case (invalid md m')
      with up show ?thesis by auto
    next
      case (sent md j)
      with up show ?thesis
        by (auto split: sum.splits dest: last_result_error)
    qed
    show ?thesis
      using f same by (intro exI [of _ token] exI [of _ s1]) (auto simp: op)
  qed
qed

theorem UploadPassphrase_MetadataError_after_token_before_PUT_witness:
  "UploadPassphrase
     ((example_client (token_server (Response []))) \<lparr>GetMetadata := Inr [(''hdd_serial'', PStr ''S1'')]\<rparr>)
     example_lib ''VOL1'' ''KEY'' False start
     = (Inl (MetadataError ''Required metadata is not found: platform_uuid''),
        \<lparr>metadata = Some [(''hdd_serial'', PStr ''S1'')], net = 1,
         trace = [Opened (Request ''https://cv.example/xsrf-token/UploadPassphrase'')]\<rparr>) \<and>
   FetchXsrfToken
     ((example_client (token_server (Response []))) \<lparr>GetMetadata := Inr [(''hdd_serial'', PStr ''S1'')]\<rparr>)
     example_lib SET_PASSPHRASE_ACTION start
     = (Inr ''T0K3N'',
        \<lparr>metadata = None, net = 1,
         trace = [Opened (Request ''https://cv.example/xsrf-token/UploadPassphrase'')]\<rparr>) \<and>
   FetchXsrfToken (example_client (\<lambda>w r. Failed (HTTPError 403 ''Forbidden'' ''denied'')))
     example_lib SET_PASSPHRASE_ACTION start
     = (Inl (RequestError ''Fetching XSRF token failed: HTTP Error 403: Forbidden: denied''),
        \<lparr>metadata = None, net = 1,
         trace = [Opened (Request ''https://cv.example/xsrf-token/UploadPassphrase'')]\<rparr>) \<and>
   UploadPassphrase (example_client (\<lambda>w r. Failed (HTTPError 403 ''Forbidden'' ''denied'')))
     example_lib ''VOL1'' ''KEY'' False start
     = (Inl (RequestError ''Fetching XSRF token failed: HTTP Error 403: Forbidden: denied''),
        \<lparr>metadata = None, net = 1,
         trace = [Opened (Request ''https://cv.example/xsrf-token/UploadPassphrase'')]\<rparr>)"
proof -
  let ?c = "(example_client (token_server (Response [])))
              \<lparr>GetMetadata := Inr [(''hdd_serial'', PStr ''S1'')]\<rparr>"
  let ?d = "example_client (\<lambda>w r. Failed (HTTPError 403 ''Forbidden'' ''denied''))"
  let ?s1 = "\<lparr>metadata = None, net = 1::nat,
         trace = [Opened (Request ''https://cv.example/xsrf-token/UploadPassphrase'')]\<rparr>"
  have f: "FetchXsrfToken ?c example_lib SET_PASSPHRASE_ACTION start = (Inr ''T0K3N'', ?s1)"
    by (subst token_server_fetch [where out = "Response []"])
       (simp_all add: example_client_def default_MAX_TRIES_def start_def SET_PASSPHRASE_ACTION_def)
  have g: "GetAndValidateMetadata ?c ?s1 =
             (Inl (MetadataError ''Required metadata is not found: platform_uuid''),
              ?s1\<lparr>metadata := Some [(''hdd_serial'', PStr ''S1'')]\<rparr>)"
    by (simp add: GetAndValidateMetadata_def example_client_def FILEVAULT_REQUIRED_PROPERTIES_def
                  dict_get_def)
  have up: "UploadPassphrase ?c example_lib ''VOL1'' ''KEY'' False start =
             (Inl (MetadataError ''Required metadata is not found: platform_uuid''),
              \<lparr>metadata = Some [(''hdd_serial'', PStr ''S1'')], net = 1,
               trace = [Opened (Request ''https://cv.example/xsrf-token/UploadPassphrase'')]\<rparr>)"
    unfolding UploadPassphrase_after_token [OF f] g by simp
  have r: "percent example_lib (xsrf_url ?d) SET_PASSPHRASE_ACTION
             = ''https://cv.example/xsrf-token/UploadPassphrase''"
    by (simp add: example_lib_def SET_PASSPHRASE_ACTION_def) (simp add: example_client_def)
  have d1: "0 < MAX_TRIES ?d" by (simp add: example_client_def default_MAX_TRIES_def)
  have d2: "opener ?d (net start)
              (with_headers ?d (Request (percent example_lib (xsrf_url ?d) SET_PASSPHRASE_ACTION)))
            = (Failed (HTTPError 403 ''Forbidden'' ''denied''), 1)"
    by (simp add: example_client_def start_def)
  have s403: "str_int 403 = ''403''" by (simp add: str_int_def)
  have fd: "FetchXsrfToken ?d example_lib SET_PASSPHRASE_ACTION start
     = (Inl (RequestError ''Fetching XSRF token failed: HTTP Error 403: Forbidden: denied''), ?s1)"
    using RetryRequest_run [of 0 ?d False
            "Request (percent example_lib (xsrf_url ?d) SET_PASSPHRASE_ACTION)" start
            "''Fetching XSRF token''"] d1 d2
    by (simp add: FetchXsrfToken_def attempt_0 is_4xx_def backoff_trace_0 r s403 start_def)
  from UploadPassphrase_MetadataError_after_token_before_PUT
         [of ?d example_lib "''VOL1''" "''KEY''" False start] fd
  have upd: "UploadPassphrase ?d example_lib ''VOL1'' ''KEY'' False start
     = (Inl (RequestError ''Fetching XSRF token failed: HTTP Error 403: Forbidden: denied''), ?s1)"
    by blast
  from UploadPassphrase_MetadataError_after_token_before_PUT
         [of ?c example_lib "''VOL1''" "''KEY''" False start] up
  have "\<exists>xsrf_token s1. FetchXsrfToken ?c example_lib SET_PASSPHRASE_ACTION start = (Inr xsrf_token, s1)"
    by blast
  then show ?thesis
    using up f fd upd by simp
qed

section \<open>Which operations fetch a token, and which requests are retried\<close>

lemma RetrieveSecret_token_failed:
  assumes "FetchXsrfToken c lib GET_PASSPHRASE_ACTION s = (Inl e, s1)"
  shows "RetrieveSecret c lib target_id s = (Inl e, s1)"
  using assms by (simp add: RetrieveSecret_def)

lemma RetrieveSecret_after_token:
  assumes "FetchXsrfToken c lib GET_PASSPHRASE_ACTION s = (Inr xsrf_token, s1)"
  shows "snd (RetrieveSecret c lib target_id s) =
           s1\<lparr>net := snd (opener c (net s1) (secret_request c lib target_id xsrf_token)),
              trace := trace s1 @ [Opened (secret_request c lib target_id xsrf_token)]\<rparr>"
  using assms
  by (simp add: RetrieveSecret_def secret_request_def opener_open_def Let_def
           split: prod.split outcome.split sum.split)

lemma IsKeyRotationNeeded_state:
  "snd (IsKeyRotationNeeded c lib target_id tag s) =
     s\<lparr>net := snd (opener c (net s) (rekey_request c lib target_id tag)),
       trace := trace s @ [Opened (rekey_request c lib target_id tag)]\<rparr>"
  by (simp add: IsKeyRotationNeeded_def rekey_request_def opener_open_def Let_def
           split: prod.split outcome.split sum.split)

lemma UploadPassphrase_state_after_token:
  assumes "FetchXsrfToken c lib SET_PASSPHRASE_ACTION s = (Inr xsrf_token, s1)"
  shows "\<exists>evs. trace (snd (UploadPassphrase c lib target_id passphrase r4 s)) = trace s1 @ evs \<and>
           (\<forall>r \<in> set (opened evs).
              \<exists>md. r = upload_request c lib target_id passphrase xsrf_token md)"
  using assms
proof (cases rule: UploadPassphrase_effect [where target_id = target_id
                         and passphrase = passphrase and ?r4.0 = r4])
  case (gather_raised e)
  then show ?thesis by simp
next
  case (invalid md m)
  then show ?thesis by simp
next
  case (sent md j)
  show ?thesis
    unfolding sent(3)
    by (intro exI [of _ "backoff_trace (upload_request c lib target_id passphrase xsrf_token md)
                           (TRY_DELAY_FACTOR c) 0 j"])
       (auto simp: opened_backoff_trace)
qed

text \<open>
  C6, as the code has it. With at least one try allowed, \<open>RetrieveSecret\<close> and
  \<open>UploadPassphrase\<close> each start with the token request for their own action name, the
  two names differ, and the request that follows carries the token which that same call
  fetched. \<open>IsKeyRotationNeeded\<close> opens one request, its status GET, and fetches no
  token.
\<close>

theorem token_fetched_by_RetrieveSecret_and_UploadPassphrase:
  assumes "0 < MAX_TRIES c"
  shows
    "(\<exists>evs. trace (snd (RetrieveSecret c lib target_id s)) =
              trace s @ Opened (xsrf_request c lib GET_PASSPHRASE_ACTION) # evs) \<and>
     (\<forall>xsrf_token s1. FetchXsrfToken c lib GET_PASSPHRASE_ACTION s = (Inr xsrf_token, s1) \<longrightarrow>
        trace (snd (RetrieveSecret c lib target_id s)) =
          trace s1 @ [Opened (secret_request c lib target_id xsrf_token)]) \<and>
     (\<exists>evs. trace (snd (UploadPassphrase c lib target_id passphrase retry_4xx s)) =
              trace s @ Opened (xsrf_request c lib SET_PASSPHRASE_ACTION) # evs) \<and>
     (\<forall>xsrf_token s1. FetchXsrfToken c lib SET_PASSPHRASE_ACTION s = (Inr xsrf_token, s1) \<longrightarrow>
        (\<forall>r \<in> set (opened (drop (length (trace s1))
                       (trace (snd (UploadPassphrase c lib target_id passphrase retry_4xx s))))).
           \<exists>md. r = upload_request c lib target_id passphrase xsrf_token md)) \<and>
     GET_PASSPHRASE_ACTION \<noteq> SET_PASSPHRASE_ACTION \<and>
     trace (snd (IsKeyRotationNeeded c lib target_id tag s)) =
       trace s @ [Opened (rekey_request c lib target_id tag)]"
    (is "?get \<and> ?get_token \<and> ?put \<and> ?put_token \<and> ?names \<and> ?rekey")
proof -
  have get_token: ?get_token
    by (auto simp: RetrieveSecret_after_token)
  have get: ?get
  proof (cases rule: FetchXsrfToken_effect [of c lib GET_PASSPHRASE_ACTION s])
    case none
    with assms show ?thesis by simp
  next
    case (failed k e)
    obtain evs where "backoff_trace (xsrf_request c lib GET_PASSPHRASE_ACTION)
                        (TRY_DELAY_FACTOR c) 0 k
                      = Opened (xsrf_request c lib GET_PASSPHRASE_ACTION) # evs"
      using backoff_trace_head by blast
    then show ?thesis
      by (simp add: RetrieveSecret_token_failed [OF failed(3)])
  next
    case (fetched k token)
    obtain evs where "backoff_trace (xsrf_request c lib GET_PASSPHRASE_ACTION)
                        (TRY_DELAY_FACTOR c) 0 k
                      = Opened (xsrf_request c lib GET_PASSPHRASE_ACTION) # evs"
      using backoff_trace_head by blast
    then show ?thesis
      by (simp add: RetrieveSecret_after_token [OF fetched(3)])
  qed
  have put_token: ?put_token
  proof (intro allI impI)
    fix xsrf_token s1
    assume f: "FetchXsrfToken c lib SET_PASSPHRASE_ACTION s = (Inr xsrf_token, s1)"
    from UploadPassphrase_state_after_token [OF f, of target_id passphrase retry_4xx]
    obtain evs where
      "trace (snd (UploadPassphrase c lib target_id passphrase retry_4xx s)) = trace s1 @ evs"
      "\<forall>r \<in> set (opened evs). \<exists>md. r = upload_request c lib target_id passphrase xsrf_token md"
      by blast
    then show "\<forall>r \<in> set (opened (drop (length (trace s1))
                       (trace (snd (UploadPassphrase c lib target_id passphrase retry_4xx s))))).
           \<exists>md. r = upload_request c lib target_id passphrase xsrf_token md"
      by simp
  qed
  have put: ?put
  proof (cases rule: FetchXsrfToken_effect [of c lib SET_PASSPHRASE_ACTION s])
    case none
    with assms show ?thesis by simp
  next
    case (failed k e)
    obtain evs where "backoff_trace (xsrf_request c lib SET_PASSPHRASE_ACTION)
                        (TRY_DELAY_FACTOR c) 0 k
                      = Opened (xsrf_request c lib SET_PASSPHRASE_ACTION) # evs"
      using backoff_trace_head by blast
    then show ?thesis
      by (simp add: UploadPassphrase_token_failed [OF failed(3)])
  next
    case (fetched k token)
    obtain evs where h: "backoff_trace (xsrf_request c lib SET_PASSPHRASE_ACTION)
                        (TRY_DELAY_FACTOR c) 0 k
                      = Opened (xsrf_request c lib SET_PASSPHRASE_ACTION) # evs"
      using backoff_trace_head by blast
    from UploadPassphrase_state_after_token [OF fetched(3), of target_id passphrase retry_4xx]
    obtain evs' where
      "trace (snd (UploadPassphrase c lib target_id passphrase retry_4xx s)) =
         (trace s @ backoff_trace (xsrf_request c lib SET_PASSPHRASE_ACTION)
                      (TRY_DELAY_FACTOR c) 0 k) @ evs'"
      by auto
    then show ?thesis
      by (simp add: h)
  qed
  have names: ?names
    by (simp add: GET_PASSPHRASE_ACTION_def SET_PASSPHRASE_ACTION_def)
  have rekey: ?rekey
    by (simp add: IsKeyRotationNeeded_state)
  from get get_token put put_token names rekey show ?thesis by blast
qed

lemma loads_true: "json_loads ''true'' = Inr (PBool True)"
  by code_simp

lemma example_rekey_request:
  "rekey_request (example_client server) example_lib ''VOL1'' ''default'' =
     Request ''https://cv.example/api/v1/rekey-required/filevault/VOL1?tag=default''"
  by (simp add: rekey_request_def example_lib_def) (simp add: example_client_def)

text \<open>
  A run of \<open>IsKeyRotationNeeded\<close> that returns \<open>True\<close>: the only request of the
  whole call is the status GET, so no XSRF token was fetched.
\<close>

theorem IsKeyRotationNeeded_fetches_no_token:
  "IsKeyRotationNeeded (example_client (token_server (Response (JSON_PREFIX @ ''true''))))
     example_lib ''VOL1'' ''default'' start
   = (Inr (PBool True),
      \<lparr>metadata = None, net = 1,
       trace = [Opened (Request
                  ''https://cv.example/api/v1/rekey-required/filevault/VOL1?tag=default'')]\<rparr>)"
proof -
  let ?c = "example_client (token_server (Response (JSON_PREFIX @ ''true'')))"
  have r: "JoinURL example_lib [base_url ?c, ''/api/v1/rekey-required/'', ESCROW_PATH ?c, ''VOL1'']
             @ ''?'' @ urlencode example_lib [(''tag'', PStr ''default'')]
           = ''https://cv.example/api/v1/rekey-required/filevault/VOL1?tag=default''"
    by (simp add: example_lib_def) (simp add: example_client_def)
  have o: "opener ?c 0 (Request ''https://cv.example/api/v1/rekey-required/filevault/VOL1?tag=default'')
             = (Response (JSON_PREFIX @ ''true''), 1)"
    by (simp add: example_client_def token_server_def Request_def)
  have l: "loads example_lib ''true'' = Inr (PBool True)"
    by (simp add: example_lib_def loads_true)
  show ?thesis
    unfolding IsKeyRotationNeeded_def Let_def r
    by (simp add: opener_open_def start_def o startswith_def l)
qed

lemma example_upload_request:
  "upload_request (example_client server) example_lib ''VOL1'' key ''T0K3N''
     [(''hdd_serial'', PStr ''S1''), (''platform_uuid'', PStr ''U1''), (''serial'', PStr ''C02'')] =
   \<lparr>req_url = ''https://cv.example/filevault?hdd_serial=S1&platform_uuid=U1&serial=C02&xsrf-token=T0K3N&volume_uuid=VOL1'',
    req_data = Some key,
    req_headers = [(''Content-type'', ''application/octet-stream'')],
    get_method = PUT\<rparr>"
  by (simp add: upload_request_def example_lib_def PutRequest_def add_header_def
                upper_char_def lower_char_def)
     (simp add: example_client_def)

lemma example_metadata_in_effect:
  "metadata s = None \<Longrightarrow>
   metadata_in_effect (example_client server) s =
     Some [(''hdd_serial'', PStr ''S1''), (''platform_uuid'', PStr ''U1''), (''serial'', PStr ''C02'')]"
  by (simp add: metadata_in_effect_def example_client_def)

lemma example_metadata_valid:
  "check_required
     [(''hdd_serial'', PStr ''S1''), (''platform_uuid'', PStr ''U1''), (''serial'', PStr ''C02'')]
     (REQUIRED_METADATA (example_client server)) = Inr ()"
  by (simp add: example_client_def FILEVAULT_REQUIRED_PROPERTIES_def dict_get_def)

text \<open>With a token and valid metadata, the PUT is handed to the retry transport.\<close>

lemma UploadPassphrase_sends:
  assumes "FetchXsrfToken c lib SET_PASSPHRASE_ACTION s = (Inr xsrf_token, s1)"
    and "metadata_in_effect c s1 = Some md"
    and "no_metadata (metadata s1) \<longrightarrow> check_required md (REQUIRED_METADATA c) = Inr ()"
  shows "UploadPassphrase c lib target_id passphrase r4 s =
           (case RetryRequest c
                   (PutRequest (escrow_url c @ ''?'' @
                      urlencode lib (AList.update ''volume_uuid'' (PStr target_id)
                                       (AList.update ''xsrf-token'' (PStr xsrf_token) md)))
                    passphrase)
                   ''Uploading passphrase'' r4 (s1\<lparr>metadata := Some md\<rparr>) of
              (Inl e, s3) \<Rightarrow> (Inl e, s3)
            | (Inr response, s3) \<Rightarrow> (Inr (), s3))"
proof (cases "no_metadata (metadata s1)")
  case True
  with assms(3) have ok: "check_required md (REQUIRED_METADATA c) = Inr ()" by simp
  have "GetAndValidateMetadata c s1 = (Inr (), s1\<lparr>metadata := Some md\<rparr>)"
    using GetAndValidateMetadata_in_effect [OF assms(2)] ok by simp
  then show ?thesis
    using True by (simp add: UploadPassphrase_after_token [OF assms(1)])
next
  case False
  with assms(2) have md: "metadata s1 = Some md"
    by (simp add: metadata_in_effect_def)
  then have same: "s1\<lparr>metadata := Some md\<rparr> = s1" by simp
  show ?thesis
    unfolding same using False md by (simp add: UploadPassphrase_after_token [OF assms(1)])
qed

lemma example_upload_answer:
  "opener (example_client (token_server out)) w
     \<lparr>req_url = ''https://cv.example/filevault?hdd_serial=S1&platform_uuid=U1&serial=C02&xsrf-token=T0K3N&volume_uuid=VOL1'',
      req_data = Some key,
      req_headers = [(''Content-type'', ''application/octet-stream'')],
      get_method = PUT\<rparr> = (out, Suc w)"
  by (simp add: example_client_def token_server_def)

lemma example_upload:
  assumes "\<not> retried False out"
  shows "UploadPassphrase (example_client (token_server out)) example_lib ''VOL1'' key False start =
           (case last_result ''Uploading passphrase'' False out of
              Inl e \<Rightarrow> Inl e | Inr response \<Rightarrow> Inr (),
            \<lparr>metadata = Some [(''hdd_serial'', PStr ''S1''), (''platform_uuid'', PStr ''U1''),
                              (''serial'', PStr ''C02'')],
             net = 2,
             trace = [Opened (Request ''https://cv.example/xsrf-token/UploadPassphrase''),
                      Opened \<lparr>req_url = ''https://cv.example/filevault?hdd_serial=S1&platform_uuid=U1&serial=C02&xsrf-token=T0K3N&volume_uuid=VOL1'',
                              req_data = Some key,
                              req_headers = [(''Content-type'', ''application/octet-stream'')],
                              get_method = PUT\<rparr>]\<rparr>)"
proof -
  let ?c = "example_client (token_server out)"
  let ?md = "[(''hdd_serial'', PStr ''S1''), (''platform_uuid'', PStr ''U1''), (''serial'', PStr ''C02'')]"
  let ?s1 = "\<lparr>metadata = None, net = 1::nat,
         trace = [Opened (Request ''https://cv.example/xsrf-token/UploadPassphrase'')]\<rparr>"
  let ?put = "PutRequest (escrow_url ?c @ ''?'' @
                      urlencode example_lib (AList.update ''volume_uuid'' (PStr ''VOL1'')
                                       (AList.update ''xsrf-token'' (PStr ''T0K3N'') ?md))) key"
  have f: "FetchXsrfToken ?c example_lib SET_PASSPHRASE_ACTION start = (Inr ''T0K3N'', ?s1)"
    by (simp add: example_token_fetch) (simp add: start_def SET_PASSPHRASE_ACTION_def)
  have eff: "metadata_in_effect ?c ?s1 = Some ?md"
    by (simp add: example_metadata_in_effect)
  have ok: "no_metadata (metadata ?s1) \<longrightarrow> check_required ?md (REQUIRED_METADATA ?c) = Inr ()"
    by (simp add: example_metadata_valid)
  have M: "0 < MAX_TRIES ?c"
    by (simp add: example_client_def default_MAX_TRIES_def)
  have wr: "with_headers ?c ?put = upload_request ?c example_lib ''VOL1'' key ''T0K3N'' ?md"
    by (simp add: upload_request_def)
  have a0: "attempt ?c (with_headers ?c ?put) (net (?s1\<lparr>metadata := Some ?md\<rparr>)) 0 = out"
    unfolding wr example_upload_request by (simp add: attempt_0 example_upload_answer)
  have n1: "net_after ?c (with_headers ?c ?put) (net (?s1\<lparr>metadata := Some ?md\<rparr>)) (Suc 0) = 2"
    unfolding wr example_upload_request by (simp add: example_upload_answer)
  have run: "RetryRequest ?c ?put ''Uploading passphrase'' False (?s1\<lparr>metadata := Some ?md\<rparr>) =
               (last_result ''Uploading passphrase'' False out,
                (?s1\<lparr>metadata := Some ?md\<rparr>)\<lparr>net := 2,
                   trace := trace (?s1\<lparr>metadata := Some ?md\<rparr>) @
                     backoff_trace (with_headers ?c ?put) (TRY_DELAY_FACTOR ?c) 0 0\<rparr>)"
    using RetryRequest_run [of 0 ?c False ?put "?s1\<lparr>metadata := Some ?md\<rparr>"
                              "''Uploading passphrase''"] M assms
    unfolding a0 n1 by simp
  show ?thesis
    unfolding UploadPassphrase_sends [OF f eff ok] run backoff_trace_0 wr example_upload_request
    by (simp split: sum.split)
qed

theorem token_fetched_by_RetrieveSecret_and_UploadPassphrase_witness:
  "0 < MAX_TRIES (example_client (token_server (Response (JSON_PREFIX @ secret_document)))) \<and>
   FetchXsrfToken (example_client (token_server (Response (JSON_PREFIX @ secret_document))))
     example_lib GET_PASSPHRASE_ACTION start
     = (Inr ''T0K3N'',
        \<lparr>metadata = None, net = 1,
         trace = [Opened (Request ''https://cv.example/xsrf-token/RetrieveSecret'')]\<rparr>) \<and>
   trace (snd (RetrieveSecret (example_client (token_server (Response (JSON_PREFIX @ secret_document))))
     example_lib ''VOL1'' start))
     = [Opened (Request ''https://cv.example/xsrf-token/RetrieveSecret''),
        Opened (Request ''https://cv.example/filevault/VOL1?xsrf-token=T0K3N'')] \<and>
   FetchXsrfToken (example_client (token_server (Response (JSON_PREFIX @ secret_document))))
     example_lib SET_PASSPHRASE_ACTION start
     = (Inr ''T0K3N'',
        \<lparr>metadata = None, net = 1,
         trace = [Opened (Request ''https://cv.example/xsrf-token/UploadPassphrase'')]\<rparr>) \<and>
   opened (trace (snd (UploadPassphrase
     (example_client (token_server (Response (JSON_PREFIX @ secret_document))))
     example_lib ''VOL1'' ''KEY'' False start)))
     = [Request ''https://cv.example/xsrf-token/UploadPassphrase'',
        upload_request (example_client (token_server (Response (JSON_PREFIX @ secret_document))))
          example_lib ''VOL1'' ''KEY'' ''T0K3N''
          [(''hdd_serial'', PStr ''S1''), (''platform_uuid'', PStr ''U1''),
           (''serial'', PStr ''C02'')]]"
proof -
  let ?c = "example_client (token_server (Response (JSON_PREFIX @ secret_document)))"
  let ?s1 = "\<lparr>metadata = None, net = 1::nat,
         trace = [Opened (Request ''https://cv.example/xsrf-token/RetrieveSecret'')]\<rparr>"
  have h: "0 < MAX_TRIES ?c"
    by (simp add: example_client_def default_MAX_TRIES_def)
  have f: "FetchXsrfToken ?c example_lib GET_PASSPHRASE_ACTION start = (Inr ''T0K3N'', ?s1)"
    by (simp add: example_token_fetch) (simp add: start_def GET_PASSPHRASE_ACTION_def)
  from token_fetched_by_RetrieveSecret_and_UploadPassphrase
         [OF h, of example_lib "''VOL1''" start] f
  have "trace (snd (RetrieveSecret ?c example_lib ''VOL1'' start)) =
          trace ?s1 @ [Opened (secret_request ?c example_lib ''VOL1'' ''T0K3N'')]"
    by blast
  moreover have g: "FetchXsrfToken ?c example_lib SET_PASSPHRASE_ACTION start =
      (Inr ''T0K3N'',
        \<lparr>metadata = None, net = 1,
         trace = [Opened (Request ''https://cv.example/xsrf-token/UploadPassphrase'')]\<rparr>)"
    by (simp add: example_token_fetch) (simp add: start_def SET_PASSPHRASE_ACTION_def)
  moreover have "opened (trace (snd (UploadPassphrase ?c example_lib ''VOL1'' ''KEY'' False start)))
     = [Request ''https://cv.example/xsrf-token/UploadPassphrase'',
        upload_request ?c example_lib ''VOL1'' ''KEY'' ''T0K3N''
          [(''hdd_serial'', PStr ''S1''), (''platform_uuid'', PStr ''U1''),
           (''serial'', PStr ''C02'')]]"
    by (simp add: example_upload example_upload_request)
  ultimately show ?thesis
    using h f by (simp add: example_secret_request)
qed

lemma RetrieveSecret_get_failed:
  assumes "FetchXsrfToken c lib GET_PASSPHRASE_ACTION s = (Inr xsrf_token, s1)"
    and "opener c (net s1) (secret_request c lib target_id xsrf_token) = (Failed e, w)"
  shows "RetrieveSecret c lib target_id s =
          (if is_HTTPError e \<and> code_of e = 404
           then Inl (NotFoundError (''Failed to retrieve passphrase. '' @ str_urlerror (append_body e)))
           else Inl (RequestError (''Failed to retrieve passphrase. '' @ str_urlerror (append_body e))),
           s1\<lparr>net := w, trace := trace s1 @ [Opened (secret_request c lib target_id xsrf_token)]\<rparr>)"
  using assms
  by (simp add: RetrieveSecret_def secret_request_def opener_open_def Let_def NOT_FOUND_def)

lemma IsKeyRotationNeeded_get_failed:
  assumes "opener c (net s) (rekey_request c lib target_id tag) = (Failed e, w)"
  shows "IsKeyRotationNeeded c lib target_id tag s =
           (Inl (RequestError (''Failed to get status. '' @ str_urlerror (append_body e))),
            s\<lparr>net := w, trace := trace s @ [Opened (rekey_request c lib target_id tag)]\<rparr>)"
  using assms
  by (simp add: IsKeyRotationNeeded_def rekey_request_def opener_open_def Let_def)

lemma FetchXsrfToken_run:
  assumes "k < MAX_TRIES c"
    and "\<forall>n<k. retried False (attempt c (xsrf_request c lib action) (net s) n)"
    and "k = MAX_TRIES c - 1 \<or> \<not> retried False (attempt c (xsrf_request c lib action) (net s) k)"
  shows "FetchXsrfToken c lib action s =
           (case last_result ''Fetching XSRF token'' False
                   (attempt c (xsrf_request c lib action) (net s) k) of
              Inl e \<Rightarrow> Inl e
            | Inr None \<Rightarrow> Inl AttributeError
            | Inr (Some response) \<Rightarrow> Inr response,
            s\<lparr>net := net_after c (xsrf_request c lib action) (net s) (Suc k),
              trace := trace s @
                backoff_trace (xsrf_request c lib action) (TRY_DELAY_FACTOR c) 0 k\<rparr>)"
proof -
  let ?req = "Request (percent lib (xsrf_url c) action)"
  have run: "RetryRequest c ?req ''Fetching XSRF token'' False s =
           (last_result ''Fetching XSRF token'' False (attempt c (with_headers c ?req) (net s) k),
            s\<lparr>net := net_after c (with_headers c ?req) (net s) (Suc k),
              trace := trace s @ backoff_trace (with_headers c ?req) (TRY_DELAY_FACTOR c) 0 k\<rparr>)"
    using assms by (intro RetryRequest_run) (simp_all add: xsrf_request_def)
  show ?thesis
    unfolding FetchXsrfToken_def Let_def run
    by (simp add: xsrf_request_def split: sum.split option.split)
qed

lemma UploadPassphrase_run:
  assumes "FetchXsrfToken c lib SET_PASSPHRASE_ACTION s = (Inr xsrf_token, s1)"
    and "metadata_in_effect c s1 = Some md"
    and "no_metadata (metadata s1) \<longrightarrow> check_required md (REQUIRED_METADATA c) = Inr ()"
    and "k < MAX_TRIES c"
    and "\<forall>n<k. retried r4
            (attempt c (upload_request c lib target_id passphrase xsrf_token md) (net s1) n)"
    and "k = MAX_TRIES c - 1 \<or> \<not> retried r4
            (attempt c (upload_request c lib target_id passphrase xsrf_token md) (net s1) k)"
  shows "UploadPassphrase c lib target_id passphrase r4 s =
           (case last_result ''Uploading passphrase'' r4
                   (attempt c (upload_request c lib target_id passphrase xsrf_token md) (net s1) k) of
              Inl e \<Rightarrow> Inl e
            | Inr response \<Rightarrow> Inr (),
            s1\<lparr>metadata := Some md,
               net := net_after c (upload_request c lib target_id passphrase xsrf_token md)
                        (net s1) (Suc k),
               trace := trace s1 @
                 backoff_trace (upload_request c lib target_id passphrase xsrf_token md)
                   (TRY_DELAY_FACTOR c) 0 k\<rparr>)"
proof -
  let ?put = "PutRequest (escrow_url c @ ''?'' @
                      urlencode lib (AList.update ''volume_uuid'' (PStr target_id)
                                       (AList.update ''xsrf-token'' (PStr xsrf_token) md)))
                    passphrase"
  have wr: "with_headers c ?put = upload_request c lib target_id passphrase xsrf_token md"
    by (simp add: upload_request_def)
  have run: "RetryRequest c ?put ''Uploading passphrase'' r4 (s1\<lparr>metadata := Some md\<rparr>) =
           (last_result ''Uploading passphrase'' r4
              (attempt c (with_headers c ?put) (net (s1\<lparr>metadata := Some md\<rparr>)) k),
            (s1\<lparr>metadata := Some md\<rparr>)
              \<lparr>net := net_after c (with_headers c ?put) (net (s1\<lparr>metadata := Some md\<rparr>)) (Suc k),
               trace := trace (s1\<lparr>metadata := Some md\<rparr>) @
                  backoff_trace (with_headers c ?put) (TRY_DELAY_FACTOR c) 0 k\<rparr>)"
    using assms(4-6) by (intro RetryRequest_run) (simp_all add: upload_request_def)
  show ?thesis
    unfolding UploadPassphrase_sends [OF assms(1-3)] run wr
    by (simp split: sum.split)
qed

text \<open>
  C7, as the code has it. The GETs of \<open>RetrieveSecret\<close> and of \<open>IsKeyRotationNeeded\<close>
  are opened once, with no pause: a \<open>URLError\<close> or \<open>HTTPError\<close> of the first ends the
  call with \<open>RequestError\<close>, or with \<open>NotFoundError\<close> when the status is 404; one of the
  second ends the call with \<open>RequestError\<close> whatever the status. The token request and
  the PUT of \<open>UploadPassphrase\<close> go through the retry transport: after \<open>k\<close> retried
  failures, each followed by its pause, attempt \<open>k\<close> decides the call, so a token or an
  accepted upload at a later attempt is returned, and only the failure of the last
  attempt allowed is permanent.
\<close>

theorem only_token_fetch_and_upload_are_retried:
  "(\<forall>xsrf_token s1 e w.
       FetchXsrfToken c lib GET_PASSPHRASE_ACTION s = (Inr xsrf_token, s1) \<and>
       opener c (net s1) (secret_request c lib target_id xsrf_token) = (Failed e, w) \<longrightarrow>
         RetrieveSecret c lib target_id s =
           (if is_HTTPError e \<and> code_of e = 404
            then Inl (NotFoundError (''Failed to retrieve passphrase. '' @
                                       str_urlerror (append_body e)))
            else Inl (RequestError (''Failed to retrieve passphrase. '' @
                                      str_urlerror (append_body e))),
            s1\<lparr>net := w,
               trace := trace s1 @ [Opened (secret_request c lib target_id xsrf_token)]\<rparr>)) \<and>
   (\<forall>e w. opener c (net s) (rekey_request c lib target_id tag) = (Failed e, w) \<longrightarrow>
       IsKeyRotationNeeded c lib target_id tag s =
         (Inl (RequestError (''Failed to get status. '' @ str_urlerror (append_body e))),
          s\<lparr>net := w, trace := trace s @ [Opened (rekey_request c lib target_id tag)]\<rparr>)) \<and>
   (\<forall>k. k < MAX_TRIES c \<and>
        (\<forall>n<k. retried False (attempt c (xsrf_request c lib action) (net s) n)) \<and>
        (k = MAX_TRIES c - 1 \<or>
         \<not> retried False (attempt c (xsrf_request c lib action) (net s) k)) \<longrightarrow>
       FetchXsrfToken c lib action s =
         (case last_result ''Fetching XSRF token'' False
                 (attempt c (xsrf_request c lib action) (net s) k) of
            Inl e \<Rightarrow> Inl e
          | Inr None \<Rightarrow> Inl AttributeError
          | Inr (Some response) \<Rightarrow> Inr response,
          s\<lparr>net := net_after c (xsrf_request c lib action) (net s) (Suc k),
            trace := trace s @
              backoff_trace (xsrf_request c lib action) (TRY_DELAY_FACTOR c) 0 k\<rparr>) \<and>
       (\<forall>token. attempt c (xsrf_request c lib action) (net s) k = Response token \<longrightarrow>
          fst (FetchXsrfToken c lib action s) = Inr token)) \<and>
   (\<forall>xsrf_token s1 md k.
       FetchXsrfToken c lib SET_PASSPHRASE_ACTION s = (Inr xsrf_token, s1) \<and>
       metadata_in_effect c s1 = Some md \<and>
       (no_metadata (metadata s1) \<longrightarrow> check_required md (REQUIRED_METADATA c) = Inr ()) \<and>
       k < MAX_TRIES c \<and>
       (\<forall>n<k. retried retry_4xx
            (attempt c (upload_request c lib target_id passphrase xsrf_token md) (net s1) n)) \<and>
       (k = MAX_TRIES c - 1 \<or> \<not> retried retry_4xx
            (attempt c (upload_request c lib target_id passphrase xsrf_token md) (net s1) k)) \<longrightarrow>
         UploadPassphrase c lib target_id passphrase retry_4xx s =
           (case last_result ''Uploading passphrase'' retry_4xx
                   (attempt c (upload_request c lib target_id passphrase xsrf_token md)
                      (net s1) k) of
              Inl e \<Rightarrow> Inl e
            | Inr response \<Rightarrow> Inr (),
            s1\<lparr>metadata := Some md,
               net := net_after c (upload_request c lib target_id passphrase xsrf_token md)
                        (net s1) (Suc k),
               trace := trace s1 @
                 backoff_trace (upload_request c lib target_id passphrase xsrf_token md)
                   (TRY_DELAY_FACTOR c) 0 k\<rparr>) \<and>
         (\<forall>body. attempt c (upload_request c lib target_id passphrase xsrf_token md)
                    (net s1) k = Response body \<longrightarrow>
            fst (UploadPassphrase c lib target_id passphrase retry_4xx s) = Inr ()))"
  (is "?secret \<and> ?rekey \<and> ?token \<and> ?upload")
proof -
  have secret: ?secret
    by (auto simp: RetrieveSecret_get_failed)
  have rekey: ?rekey
    by (auto simp: IsKeyRotationNeeded_get_failed)
  have token: ?token
  proof (intro allI impI, elim conjE)
    fix k
    assume k: "k < MAX_TRIES c"
      "\<forall>n<k. retried False (attempt c (xsrf_request c lib action) (net s) n)"
      "k = MAX_TRIES c - 1 \<or> \<not> retried False (attempt c (xsrf_request c lib action) (net s) k)"
    note run = FetchXsrfToken_run [OF k]
    show "FetchXsrfToken c lib action s =
         (case last_result ''Fetching XSRF token'' False
                 (attempt c (xsrf_request c lib action) (net s) k) of
            Inl e \<Rightarrow> Inl e
          | Inr None \<Rightarrow> Inl AttributeError
          | Inr (Some response) \<Rightarrow> Inr response,
          s\<lparr>net := net_after c (xsrf_request c lib action) (net s) (Suc k),
            trace := trace s @
              backoff_trace (xsrf_request c lib action) (TRY_DELAY_FACTOR c) 0 k\<rparr>) \<and>
       (\<forall>token. attempt c (xsrf_request c lib action) (net s) k = Response token \<longrightarrow>
          fst (FetchXsrfToken c lib action s) = Inr token)"
      unfolding run by simp
  qed
  have upload: ?upload
  proof (intro allI impI, elim conjE)
    fix xsrf_token s1 md k
    assume f: "FetchXsrfToken c lib SET_PASSPHRASE_ACTION s = (Inr xsrf_token, s1)"
      and eff: "metadata_in_effect c s1 = Some md"
      and ok: "no_metadata (metadata s1) \<longrightarrow> check_required md (REQUIRED_METADATA c) = Inr ()"
      and k: "k < MAX_TRIES c"
        "\<forall>n<k. retried retry_4xx
            (attempt c (upload_request c lib target_id passphrase xsrf_token md) (net s1) n)"
        "k = MAX_TRIES c - 1 \<or> \<not> retried retry_4xx
            (attempt c (upload_request c lib target_id passphrase xsrf_token md) (net s1) k)"
    note run = UploadPassphrase_run [OF f eff ok k]
    show "UploadPassphrase c lib target_id passphrase retry_4xx s =
           (case last_result ''Uploading passphrase'' retry_4xx
                   (attempt c (upload_request c lib target_id passphrase xsrf_token md)
                      (net s1) k) of
              Inl e \<Rightarrow> Inl e
            | Inr response \<Rightarrow> Inr (),
            s1\<lparr>metadata := Some md,
               net := net_after c (upload_request c lib target_id passphrase xsrf_token md)
                        (net s1) (Suc k),
               trace := trace s1 @
                 backoff_trace (upload_request c lib target_id passphrase xsrf_token md)
                   (TRY_DELAY_FACTOR c) 0 k\<rparr>) \<and>
         (\<forall>body. attempt c (upload_request c lib target_id passphrase xsrf_token md)
                    (net s1) k = Response body \<longrightarrow>
            fst (UploadPassphrase c lib target_id passphrase retry_4xx s) = Inr ())"
      unfolding run by simp
  qed
  from secret rekey token upload show ?thesis by blast
qed

text \<open>
  With five tries allowed, a time-out of the GET of \<open>RetrieveSecret\<close> fails the call
  at once: the log holds the token request and one GET, and no pause.
\<close>

theorem RetrieveSecret_GET_fails_on_first_timeout:
  "MAX_TRIES (example_client (token_server (Failed (URLError ''timed out'')))) = 5 \<and>
   RetrieveSecret (example_client (token_server (Failed (URLError ''timed out''))))
     example_lib ''VOL1'' start
   = (Inl (RequestError ''Failed to retrieve passphrase. <urlopen error timed out>''),
      \<lparr>metadata = None, net = 2,
       trace = [Opened (Request ''https://cv.example/xsrf-token/RetrieveSecret''),
                Opened (Request ''https://cv.example/filevault/VOL1?xsrf-token=T0K3N'')]\<rparr>)"
proof -
  let ?c = "example_client (token_server (Failed (URLError ''timed out'')))"
  let ?s1 = "\<lparr>metadata = None, net = 1::nat,
         trace = [Opened (Request ''https://cv.example/xsrf-token/RetrieveSecret'')]\<rparr>"
  have M: "MAX_TRIES ?c = 5"
    by (simp add: example_client_def default_MAX_TRIES_def)
  have f: "FetchXsrfToken ?c example_lib GET_PASSPHRASE_ACTION start = (Inr ''T0K3N'', ?s1)"
    by (simp add: example_token_fetch) (simp add: start_def GET_PASSPHRASE_ACTION_def)
  have o: "opener ?c (net ?s1) (secret_request ?c example_lib ''VOL1'' ''T0K3N'')
              = (Failed (URLError ''timed out''), 2)"
    by (simp add: example_secret_request example_secret_answer)
  show ?thesis
    using M by (simp add: RetrieveSecret_get_failed [OF f o] example_secret_request)
qed

lemma sleeps_backoff_defaults:
  "sleeps (backoff_trace r 5 0 4) = [5, 10, 15, 20]"
proof -
  have four: "[0 ..< 4] = [0, 1, 2, Suc 2]" by (simp add: upt_rec)
  show ?thesis by (simp add: sleeps_backoff_trace four)
qed

lemma example_xsrf_request:
  "xsrf_request (example_client server) example_lib SET_PASSPHRASE_ACTION =
     Request ''https://cv.example/xsrf-token/UploadPassphrase''"
  by (simp add: xsrf_request_def example_lib_def SET_PASSPHRASE_ACTION_def)
     (simp add: example_client_def)

lemma example_settings:
  "MAX_TRIES (example_client server) = 5" "TRY_DELAY_FACTOR (example_client server) = 5"
  by (simp_all add: example_client_def default_MAX_TRIES_def default_TRY_DELAY_FACTOR_def)

theorem only_token_fetch_and_upload_are_retried_witness:
  "FetchXsrfToken
     (example_client (token_server (Failed (HTTPError 404 ''Not Found'' ''none''))))
     example_lib GET_PASSPHRASE_ACTION start
     = (Inr ''T0K3N'',
        \<lparr>metadata = None, net = 1,
         trace = [Opened (Request ''https://cv.example/xsrf-token/RetrieveSecret'')]\<rparr>) \<and>
   opener (example_client (token_server (Failed (HTTPError 404 ''Not Found'' ''none''))))
     1 (secret_request
          (example_client (token_server (Failed (HTTPError 404 ''Not Found'' ''none''))))
          example_lib ''VOL1'' ''T0K3N'')
     = (Failed (HTTPError 404 ''Not Found'' ''none''), 2) \<and>
   RetrieveSecret
     (example_client (token_server (Failed (HTTPError 404 ''Not Found'' ''none''))))
     example_lib ''VOL1'' start
     = (Inl (NotFoundError ''Failed to retrieve passphrase. HTTP Error 404: Not Found: none''),
        \<lparr>metadata = None, net = 2,
         trace = [Opened (Request ''https://cv.example/xsrf-token/RetrieveSecret''),
                  Opened (Request ''https://cv.example/filevault/VOL1?xsrf-token=T0K3N'')]\<rparr>) \<and>
   opener (example_client (token_server (Failed (HTTPError 404 ''Not Found'' ''none''))))
     0 (rekey_request
          (example_client (token_server (Failed (HTTPError 404 ''Not Found'' ''none''))))
          example_lib ''VOL1'' ''default'')
     = (Failed (HTTPError 404 ''Not Found'' ''none''), 1) \<and>
   IsKeyRotationNeeded
     (example_client (token_server (Failed (HTTPError 404 ''Not Found'' ''none''))))
     example_lib ''VOL1'' ''default'' start
     = (Inl (RequestError ''Failed to get status. HTTP Error 404: Not Found: none''),
        \<lparr>metadata = None, net = 1,
         trace = [Opened (Request
                    ''https://cv.example/api/v1/rekey-required/filevault/VOL1?tag=default'')]\<rparr>) \<and>
   retried False (attempt
     (example_client (\<lambda>w r. if w = 0 then Failed (URLError ''timed out'')
                              else Response ''T0K3N''))
     (Request ''https://cv.example/xsrf-token/UploadPassphrase'') 0 0) \<and>
   attempt
     (example_client (\<lambda>w r. if w = 0 then Failed (URLError ''timed out'')
                              else Response ''T0K3N''))
     (Request ''https://cv.example/xsrf-token/UploadPassphrase'') 0 1 = Response ''T0K3N'' \<and>
   FetchXsrfToken
     (example_client (\<lambda>w r. if w = 0 then Failed (URLError ''timed out'')
                              else Response ''T0K3N''))
     example_lib SET_PASSPHRASE_ACTION start
     = (Inr ''T0K3N'',
        \<lparr>metadata = None, net = 2,
         trace = [Opened (Request ''https://cv.example/xsrf-token/UploadPassphrase''), Slept 5,
                  Opened (Request ''https://cv.example/xsrf-token/UploadPassphrase'')]\<rparr>) \<and>
   sleeps (trace (snd (FetchXsrfToken
     (example_client (\<lambda>w r. Failed (URLError ''Connection refused'')))
     example_lib SET_PASSPHRASE_ACTION start))) = [5, 10, 15, 20] \<and>
   fst (FetchXsrfToken
     (example_client (\<lambda>w r. Failed (URLError ''Connection refused'')))
     example_lib SET_PASSPHRASE_ACTION start)
     = Inl (RequestError
         ''Fetching XSRF token failed permanently: <urlopen error Connection refused>'') \<and>
   FetchXsrfToken
     (example_client (\<lambda>w r. if w = 0 then Response ''T0K3N''
                              else if w = 1
                              then Failed (HTTPError 503 ''Service Unavailable'' ''busy'')
                              else Response []))
     example_lib SET_PASSPHRASE_ACTION start
     = (Inr ''T0K3N'',
        \<lparr>metadata = None, net = 1,
         trace = [Opened (Request ''https://cv.example/xsrf-token/UploadPassphrase'')]\<rparr>) \<and>
   UploadPassphrase
     (example_client (\<lambda>w r. if w = 0 then Response ''T0K3N''
                              else if w = 1
                              then Failed (HTTPError 503 ''Service Unavailable'' ''busy'')
                              else Response []))
     example_lib ''VOL1'' ''KEY'' False start
     = (Inr (),
        \<lparr>metadata = Some [(''hdd_serial'', PStr ''S1''), (''platform_uuid'', PStr ''U1''),
                          (''serial'', PStr ''C02'')],
         net = 3,
         trace = [Opened (Request ''https://cv.example/xsrf-token/UploadPassphrase''),
                  Opened (upload_request (example_client (\<lambda>w r. Response [])) example_lib
                            ''VOL1'' ''KEY'' ''T0K3N''
                            [(''hdd_serial'', PStr ''S1''), (''platform_uuid'', PStr ''U1''),
                             (''serial'', PStr ''C02'')]),
                  Slept 5,
                  Opened (upload_request (example_client (\<lambda>w r. Response [])) example_lib
                            ''VOL1'' ''KEY'' ''T0K3N''
                            [(''hdd_serial'', PStr ''S1''), (''platform_uuid'', PStr ''U1''),
                             (''serial'', PStr ''C02'')])]\<rparr>)"
proof -
  let ?e = "HTTPError 404 ''Not Found'' ''none''"
  let ?a = "example_client (token_server (Failed ?e))"
  let ?t = "example_client (\<lambda>w r. if w = 0 then Failed (URLError ''timed out'')
                              else Response ''T0K3N'')"
  let ?c = "example_client (\<lambda>w r. Failed (URLError ''Connection refused''))"
  let ?u = "example_client (\<lambda>w r. if w = 0 then Response ''T0K3N''
                              else if w = 1
                              then Failed (HTTPError 503 ''Service Unavailable'' ''busy'')
                              else Response [])"
  let ?x = "Request ''https://cv.example/xsrf-token/UploadPassphrase''"
  let ?md = "[(''hdd_serial'', PStr ''S1''), (''platform_uuid'', PStr ''U1''), (''serial'', PStr ''C02'')]"
  let ?g1 = "\<lparr>metadata = None, net = 1::nat,
         trace = [Opened (Request ''https://cv.example/xsrf-token/RetrieveSecret'')]\<rparr>"
  let ?u1 = "\<lparr>metadata = None, net = 1::nat, trace = [Opened ?x]\<rparr>"
  let ?put = "\<lambda>server. upload_request (example_client server) example_lib ''VOL1'' ''KEY'' ''T0K3N'' ?md"
  have s404: "str_int 404 = ''404''" by (simp add: str_int_def)
  have n0: "net start = 0" and t0: "trace start = []" and m0: "metadata start = None"
    by (simp_all add: start_def)
  have bt1: "backoff_trace r 5 0 (Suc 0) = [Opened r, Slept 5, Opened r]" for r
    by (simp add: backoff_trace_Suc backoff_trace_0)
  \<comment> \<open>the two GETs that are opened once\<close>
  have fg: "FetchXsrfToken ?a example_lib GET_PASSPHRASE_ACTION start = (Inr ''T0K3N'', ?g1)"
    by (simp add: example_token_fetch) (simp add: start_def GET_PASSPHRASE_ACTION_def)
  have og: "opener ?a (net ?g1) (secret_request ?a example_lib ''VOL1'' ''T0K3N'') = (Failed ?e, 2)"
    by (simp add: example_secret_request example_secret_answer)
  have ok: "opener ?a (net start) (rekey_request ?a example_lib ''VOL1'' ''default'') = (Failed ?e, 1)"
    by (simp add: example_rekey_request n0)
       (simp add: example_client_def token_server_def Request_def)
  note a = only_token_fetch_and_upload_are_retried [where c = ?a and lib = example_lib and target_id = "''VOL1''" and s = start
             and tag = "''default''" and action = SET_PASSPHRASE_ACTION
             and passphrase = "''KEY''" and retry_4xx = False]
  have secret:
    "RetrieveSecret ?a example_lib ''VOL1'' start =
       (if is_HTTPError ?e \<and> code_of ?e = 404
        then Inl (NotFoundError (''Failed to retrieve passphrase. '' @ str_urlerror (append_body ?e)))
        else Inl (RequestError (''Failed to retrieve passphrase. '' @ str_urlerror (append_body ?e))),
        ?g1\<lparr>net := 2, trace := trace ?g1 @ [Opened (secret_request ?a example_lib ''VOL1'' ''T0K3N'')]\<rparr>)"
    by (rule a [THEN conjunct1, rule_format, OF conjI [OF fg og]])
  have rekey:
    "IsKeyRotationNeeded ?a example_lib ''VOL1'' ''default'' start =
         (Inl (RequestError (''Failed to get status. '' @ str_urlerror (append_body ?e))),
          start\<lparr>net := 1, trace := trace start @
             [Opened (rekey_request ?a example_lib ''VOL1'' ''default'')]\<rparr>)"
    by (rule a [THEN conjunct2, THEN conjunct1, rule_format, OF ok])
  have c1: "RetrieveSecret ?a example_lib ''VOL1'' start
     = (Inl (NotFoundError ''Failed to retrieve passphrase. HTTP Error 404: Not Found: none''),
        \<lparr>metadata = None, net = 2,
         trace = [Opened (Request ''https://cv.example/xsrf-token/RetrieveSecret''),
                  Opened (Request ''https://cv.example/filevault/VOL1?xsrf-token=T0K3N'')]\<rparr>)"
    unfolding secret by (simp add: example_secret_request s404)
  have c2: "IsKeyRotationNeeded ?a example_lib ''VOL1'' ''default'' start
     = (Inl (RequestError ''Failed to get status. HTTP Error 404: Not Found: none''),
        \<lparr>metadata = None, net = 1,
         trace = [Opened (Request
                    ''https://cv.example/api/v1/rekey-required/filevault/VOL1?tag=default'')]\<rparr>)"
    unfolding rekey by (simp add: example_rekey_request s404 start_def)
  \<comment> \<open>the token request: one time-out, then the token\<close>
  have t_first: "retried False (attempt ?t ?x 0 0)"
    and t_second: "attempt ?t ?x 0 1 = Response ''T0K3N''"
    by (simp_all add: example_attempt is_4xx_def)
  have t_hyp: "Suc 0 < MAX_TRIES ?t \<and>
        (\<forall>n<Suc 0. retried False (attempt ?t (xsrf_request ?t example_lib SET_PASSPHRASE_ACTION) (net start) n)) \<and>
        (Suc 0 = MAX_TRIES ?t - 1 \<or>
         \<not> retried False (attempt ?t (xsrf_request ?t example_lib SET_PASSPHRASE_ACTION) (net start) (Suc 0)))"
    by (simp add: example_settings example_xsrf_request example_attempt n0 is_4xx_def)
  note t = only_token_fetch_and_upload_are_retried [where c = ?t and lib = example_lib and target_id = "''VOL1''" and s = start
             and tag = "''default''" and action = SET_PASSPHRASE_ACTION
             and passphrase = "''KEY''" and retry_4xx = False]
  have t_run:
    "FetchXsrfToken ?t example_lib SET_PASSPHRASE_ACTION start =
         (case last_result ''Fetching XSRF token'' False
                 (attempt ?t (xsrf_request ?t example_lib SET_PASSPHRASE_ACTION) (net start) (Suc 0)) of
            Inl e \<Rightarrow> Inl e
          | Inr None \<Rightarrow> Inl AttributeError
          | Inr (Some response) \<Rightarrow> Inr response,
          start\<lparr>net := net_after ?t (xsrf_request ?t example_lib SET_PASSPHRASE_ACTION) (net start) (Suc (Suc 0)),
            trace := trace start @
              backoff_trace (xsrf_request ?t example_lib SET_PASSPHRASE_ACTION) (TRY_DELAY_FACTOR ?t) 0 (Suc 0)\<rparr>)"
    by (rule t [THEN conjunct2, THEN conjunct2, THEN conjunct1, rule_format, OF t_hyp, THEN conjunct1])
  have c3: "FetchXsrfToken ?t example_lib SET_PASSPHRASE_ACTION start
     = (Inr ''T0K3N'', \<lparr>metadata = None, net = 2, trace = [Opened ?x, Slept 5, Opened ?x]\<rparr>)"
    unfolding t_run example_xsrf_request example_settings example_net_after
    by (simp add: example_attempt bt1 start_def)
  \<comment> \<open>the token request: every attempt refused\<close>
  have c_hyp: "4 < MAX_TRIES ?c \<and>
        (\<forall>n<4. retried False (attempt ?c (xsrf_request ?c example_lib SET_PASSPHRASE_ACTION) (net start) n)) \<and>
        (4 = MAX_TRIES ?c - 1 \<or>
         \<not> retried False (attempt ?c (xsrf_request ?c example_lib SET_PASSPHRASE_ACTION) (net start) 4))"
    by (simp add: example_settings example_attempt is_4xx_def)
  note c = only_token_fetch_and_upload_are_retried [where c = ?c and lib = example_lib and target_id = "''VOL1''" and s = start
             and tag = "''default''" and action = SET_PASSPHRASE_ACTION
             and passphrase = "''KEY''" and retry_4xx = False]
  have c_run:
    "FetchXsrfToken ?c example_lib SET_PASSPHRASE_ACTION start =
         (case last_result ''Fetching XSRF token'' False
                 (attempt ?c (xsrf_request ?c example_lib SET_PASSPHRASE_ACTION) (net start) 4) of
            Inl e \<Rightarrow> Inl e
          | Inr None \<Rightarrow> Inl AttributeError
          | Inr (Some response) \<Rightarrow> Inr response,
          start\<lparr>net := net_after ?c (xsrf_request ?c example_lib SET_PASSPHRASE_ACTION) (net start) (Suc 4),
            trace := trace start @
              backoff_trace (xsrf_request ?c example_lib SET_PASSPHRASE_ACTION) (TRY_DELAY_FACTOR ?c) 0 4\<rparr>)"
    by (rule c [THEN conjunct2, THEN conjunct2, THEN conjunct1, rule_format, OF c_hyp, THEN conjunct1])
  have c4: "sleeps (trace (snd (FetchXsrfToken ?c example_lib SET_PASSPHRASE_ACTION start)))
              = [5, 10, 15, 20]"
    unfolding c_run example_settings by (simp add: t0 sleeps_backoff_defaults)
  have c5: "fst (FetchXsrfToken ?c example_lib SET_PASSPHRASE_ACTION start)
     = Inl (RequestError
         ''Fetching XSRF token failed permanently: <urlopen error Connection refused>'')"
    unfolding c_run by (simp add: example_attempt is_4xx_def)
  \<comment> \<open>the PUT: one 503, then accepted\<close>
  have fu: "FetchXsrfToken ?u example_lib SET_PASSPHRASE_ACTION start = (Inr ''T0K3N'', ?u1)"
  proof -
    have M: "0 < MAX_TRIES ?u" by (simp add: example_settings)
    have o: "opener ?u (net start) (xsrf_request ?u example_lib SET_PASSPHRASE_ACTION)
               = (Response ''T0K3N'', 1)"
      by (simp add: example_opener n0)
    show ?thesis
      using FetchXsrfToken_first_try [OF M o] by (simp add: example_xsrf_request start_def)
  qed
  have eff: "metadata_in_effect ?u ?u1 = Some ?md"
    by (simp add: example_metadata_in_effect)
  have valid: "no_metadata (metadata ?u1) \<longrightarrow> check_required ?md (REQUIRED_METADATA ?u) = Inr ()"
    by (simp add: example_metadata_valid)
  have u_hyp: "Suc 0 < MAX_TRIES ?u \<and>
       (\<forall>n<Suc 0. retried False
            (attempt ?u (upload_request ?u example_lib ''VOL1'' ''KEY'' ''T0K3N'' ?md) (net ?u1) n)) \<and>
       (Suc 0 = MAX_TRIES ?u - 1 \<or> \<not> retried False
            (attempt ?u (upload_request ?u example_lib ''VOL1'' ''KEY'' ''T0K3N'' ?md) (net ?u1) (Suc 0)))"
    by (simp add: example_settings example_attempt is_4xx_def)
  note u = only_token_fetch_and_upload_are_retried [where c = ?u and lib = example_lib and target_id = "''VOL1''" and s = start
             and tag = "''default''" and action = SET_PASSPHRASE_ACTION
             and passphrase = "''KEY''" and retry_4xx = False]
  have u_all: "FetchXsrfToken ?u example_lib SET_PASSPHRASE_ACTION start = (Inr ''T0K3N'', ?u1) \<and>
       metadata_in_effect ?u ?u1 = Some ?md \<and>
       (no_metadata (metadata ?u1) \<longrightarrow> check_required ?md (REQUIRED_METADATA ?u) = Inr ()) \<and>
       Suc 0 < MAX_TRIES ?u \<and>
       (\<forall>n<Suc 0. retried False
            (attempt ?u (upload_request ?u example_lib ''VOL1'' ''KEY'' ''T0K3N'' ?md) (net ?u1) n)) \<and>
       (Suc 0 = MAX_TRIES ?u - 1 \<or> \<not> retried False
            (attempt ?u (upload_request ?u example_lib ''VOL1'' ''KEY'' ''T0K3N'' ?md) (net ?u1) (Suc 0)))"
    using fu eff valid u_hyp by (intro conjI) (elim conjE, assumption)+
  have u_run:
    "UploadPassphrase ?u example_lib ''VOL1'' ''KEY'' False start =
           (case last_result ''Uploading passphrase'' False
                   (attempt ?u (upload_request ?u example_lib ''VOL1'' ''KEY'' ''T0K3N'' ?md)
                      (net ?u1) (Suc 0)) of
              Inl e \<Rightarrow> Inl e
            | Inr response \<Rightarrow> Inr (),
            ?u1\<lparr>metadata := Some ?md,
               net := net_after ?u (upload_request ?u example_lib ''VOL1'' ''KEY'' ''T0K3N'' ?md)
                        (net ?u1) (Suc (Suc 0)),
               trace := trace ?u1 @
                 backoff_trace (upload_request ?u example_lib ''VOL1'' ''KEY'' ''T0K3N'' ?md)
                   (TRY_DELAY_FACTOR ?u) 0 (Suc 0)\<rparr>)"
    by (rule u [THEN conjunct2, THEN conjunct2, THEN conjunct2, rule_format, OF u_all, THEN conjunct1])
  have same_put: "upload_request ?u example_lib ''VOL1'' ''KEY'' ''T0K3N'' ?md =
                  upload_request (example_client (\<lambda>w r. Response [])) example_lib
                    ''VOL1'' ''KEY'' ''T0K3N'' ?md"
    by (simp add: example_upload_request)
  have c6: "UploadPassphrase ?u example_lib ''VOL1'' ''KEY'' False start
     = (Inr (),
        \<lparr>metadata = Some ?md, net = 3,
         trace = [Opened ?x,
                  Opened (upload_request (example_client (\<lambda>w r. Response [])) example_lib
                            ''VOL1'' ''KEY'' ''T0K3N'' ?md),
                  Slept 5,
                  Opened (upload_request (example_client (\<lambda>w r. Response [])) example_lib
                            ''VOL1'' ''KEY'' ''T0K3N'' ?md)]\<rparr>)"
    unfolding u_run example_settings example_net_after same_put
    by (simp add: example_attempt bt1)
  have og': "opener ?a 1 (secret_request ?a example_lib ''VOL1'' ''T0K3N'') = (Failed ?e, 2)"
    using og by simp
  have ok': "opener ?a 0 (rekey_request ?a example_lib ''VOL1'' ''default'') = (Failed ?e, 1)"
    using ok by (simp add: n0)
  show ?thesis
    by (intro conjI fg og' c1 ok' c2 t_first t_second c3 c4 c5 fu c6)
qed

section \<open>The exceptions that leave the operations\<close>












lemma example_upload_403:
  "fst (UploadPassphrase
          (example_client (token_server (Failed (HTTPError 403 ''Forbidden'' ''denied''))))
          example_lib ''VOL1'' key False start)
   = Inl (RequestError ''Uploading passphrase failed: HTTP Error 403: Forbidden: denied'')"
proof -
  have s403: "str_int 403 = ''403''" by (simp add: str_int_def)
  have "\<not> retried False (Failed (HTTPError 403 ''Forbidden'' ''denied''))"
    by (simp add: is_4xx_def)
  from example_upload [OF this, of key] show ?thesis
    by (simp add: is_4xx_def s403)
qed


section \<open>The message after a failed upload\<close>

text \<open>
  C8, as the code has it. When the key rotation of \<open>_RotateRecoveryKey\<close> has succeeded
  and the upload raises a \<open>base_client.Error\<close>, the operator is shown
  \<open>glue.ESCROW_FAILED_MESSAGE\<close>; \<open>_PlainVolumeAction\<close> shows the same message when the
  upload after encryption fails.
\<close>

theorem upload_failure_shows_ESCROW_FAILED_MESSAGE_in_both_workflows:
  "(\<forall>recovery_key e.
       UpdateEscrowPassphrase g username passwd = Inr recovery_key \<and>
       fst (UploadPassphrase cl lib volume_uuid recovery_key False s) = Inl e \<and>
       is_base_client_Error e \<longrightarrow>
         fst (RotateRecoveryKey g username cl lib volume_uuid passwd s) =
           Inr (FatalError (ESCROW_FAILED_MESSAGE g))) \<and>
   (\<forall>new_uuid recovery_token e.
       ApplyEncryption g user passwd = Inr (new_uuid, recovery_token) \<and>
       fst (UploadPassphrase cl lib new_uuid recovery_token False s) = Inl e \<and>
       is_base_client_Error e \<longrightarrow>
         fst (PlainVolumeAction g (Inr (Some cl)) lib user passwd s) =
           Inr (FatalError (ESCROW_FAILED_MESSAGE g)))"
proof (intro conjI allI impI; elim conjE)
  fix recovery_key e
  assume rotated: "UpdateEscrowPassphrase g username passwd = Inr recovery_key"
    and failed: "fst (UploadPassphrase cl lib volume_uuid recovery_key False s) = Inl e"
    and caught: "is_base_client_Error e"
  obtain s1 where "UploadPassphrase cl lib volume_uuid recovery_key False s = (Inl e, s1)"
    using failed by (cases "UploadPassphrase cl lib volume_uuid recovery_key False s") simp
  then show "fst (RotateRecoveryKey g username cl lib volume_uuid passwd s) =
               Inr (FatalError (ESCROW_FAILED_MESSAGE g))"
    using rotated caught by (simp add: RotateRecoveryKey_def)
next
  fix new_uuid recovery_token e
  assume encrypted: "ApplyEncryption g user passwd = Inr (new_uuid, recovery_token)"
    and failed: "fst (UploadPassphrase cl lib new_uuid recovery_token False s) = Inl e"
    and caught: "is_base_client_Error e"
  obtain s1 where "UploadPassphrase cl lib new_uuid recovery_token False s = (Inl e, s1)"
    using failed by (cases "UploadPassphrase cl lib new_uuid recovery_token False s") simp
  then show "fst (PlainVolumeAction g (Inr (Some cl)) lib user passwd s) =
               Inr (FatalError (ESCROW_FAILED_MESSAGE g))"
    using encrypted caught by (simp add: PlainVolumeAction_def)
qed

text \<open>
  A rotation that succeeded locally and an encryption that succeeded locally, each
  followed by an upload that the server refuses: the two fatal pages are the same.
\<close>

theorem rotate_and_encrypt_report_the_same_upload_failure:
  "UpdateEscrowPassphrase example_glue ''alice'' ''pw'' = Inr ''NEW-KEY'' \<and>
   fst (RotateRecoveryKey example_glue ''alice''
          (example_client (token_server (Failed (HTTPError 403 ''Forbidden'' ''denied''))))
          example_lib ''VOL1'' ''pw'' start)
     = Inr (FatalError (ESCROW_FAILED_MESSAGE example_glue)) \<and>
   fst (PlainVolumeAction example_glue
          (Inr (Some (example_client (token_server (Failed (HTTPError 403 ''Forbidden'' ''denied''))))))
          example_lib ''alice'' ''pw'' start)
     = Inr (FatalError (ESCROW_FAILED_MESSAGE example_glue))"
proof -
  let ?f = "example_client (token_server (Failed (HTTPError 403 ''Forbidden'' ''denied'')))"
  have u: "UpdateEscrowPassphrase example_glue ''alice'' ''pw'' = Inr ''NEW-KEY''"
    and a: "ApplyEncryption example_glue ''alice'' ''pw'' = Inr (''VOL1'', ''FIRST-KEY'')"
    by (simp_all add: example_glue_def)
  have r: "fst (RotateRecoveryKey example_glue ''alice'' ?f example_lib ''VOL1'' ''pw'' start)
             = Inr (FatalError (ESCROW_FAILED_MESSAGE example_glue))"
    using example_upload_403 [of "''NEW-KEY''"]
    by (auto simp: RotateRecoveryKey_def u split: prod.splits)
  have p: "fst (PlainVolumeAction example_glue (Inr (Some ?f)) example_lib ''alice'' ''pw'' start)
             = Inr (FatalError (ESCROW_FAILED_MESSAGE example_glue))"
    using example_upload_403 [of "''FIRST-KEY''"]
    by (auto simp: PlainVolumeAction_def a split: prod.splits)
  from u r p show ?thesis by blast
qed

theorem upload_failure_shows_ESCROW_FAILED_MESSAGE_in_both_workflows_witness:
  "UpdateEscrowPassphrase example_glue ''bob'' ''secret'' = Inr ''NEW-KEY'' \<and>
   fst (UploadPassphrase
          (example_client (token_server (Failed (HTTPError 403 ''Forbidden'' ''denied''))))
          example_lib ''VOL1'' ''NEW-KEY'' False start)
     = Inl (RequestError ''Uploading passphrase failed: HTTP Error 403: Forbidden: denied'') \<and>
   is_base_client_Error
     (RequestError ''Uploading passphrase failed: HTTP Error 403: Forbidden: denied'') \<and>
   fst (RotateRecoveryKey example_glue ''bob''
          (example_client (token_server (Failed (HTTPError 403 ''Forbidden'' ''denied''))))
          example_lib ''VOL1'' ''secret'' start)
     = Inr (FatalError ''Escrowing the recovery passphrase failed.'') \<and>
   ApplyEncryption example_glue ''bob'' ''secret'' = Inr (''VOL1'', ''FIRST-KEY'') \<and>
   fst (UploadPassphrase
          (example_client (token_server (Failed (HTTPError 403 ''Forbidden'' ''denied''))))
          example_lib ''VOL1'' ''FIRST-KEY'' False start)
     = Inl (RequestError ''Uploading passphrase failed: HTTP Error 403: Forbidden: denied'') \<and>
   fst (PlainVolumeAction example_glue
          (Inr (Some (example_client (token_server (Failed (HTTPError 403 ''Forbidden'' ''denied''))))))
          example_lib ''bob'' ''secret'' start)
     = Inr (FatalError ''Escrowing the recovery passphrase failed.'')"
proof -
  let ?f = "example_client (token_server (Failed (HTTPError 403 ''Forbidden'' ''denied'')))"
  let ?e = "RequestError ''Uploading passphrase failed: HTTP Error 403: Forbidden: denied''"
  have u: "UpdateEscrowPassphrase example_glue ''bob'' ''secret'' = Inr ''NEW-KEY''"
    and a: "ApplyEncryption example_glue ''bob'' ''secret'' = Inr (''VOL1'', ''FIRST-KEY'')"
    and m: "ESCROW_FAILED_MESSAGE example_glue = ''Escrowing the recovery passphrase failed.''"
    by (simp_all add: example_glue_def)
  have b: "is_base_client_Error ?e" by simp
  note t = upload_failure_shows_ESCROW_FAILED_MESSAGE_in_both_workflows
             [where g = example_glue and username = "''bob''" and passwd = "''secret''"
                and cl = ?f and lib = example_lib and volume_uuid = "''VOL1''" and s = start
                and user = "''bob''"]
  from t u example_upload_403 [of "''NEW-KEY''"] b
  have r: "fst (RotateRecoveryKey example_glue ''bob'' ?f example_lib ''VOL1'' ''secret'' start)
             = Inr (FatalError (ESCROW_FAILED_MESSAGE example_glue))"
    by blast
  from t a example_upload_403 [of "''FIRST-KEY''"] b
  have p: "fst (PlainVolumeAction example_glue (Inr (Some ?f)) example_lib ''bob'' ''secret'' start)
             = Inr (FatalError (ESCROW_FAILED_MESSAGE example_glue))"
    by blast
  from u example_upload_403 [of "''NEW-KEY''"] b r a example_upload_403 [of "''FIRST-KEY''"] p
  show ?thesis unfolding m by blast
qed

end
